theory Spec2Isabelle
  imports Main "HOL-Library.Sublist"
begin

section \<open>String primitives of the Go standard library used by the daemon\<close>

text \<open>
  Go strings are byte sequences; they are modelled as \<open>string\<close> (a list of characters).
  Only the library calls that \<open>main.go\<close> makes are modelled, each for the arguments the
  source passes: \<open>strings.Split\<close> is always called with a one-byte separator,
  \<open>strings.ReplaceAll\<close> with the pattern \<open>.service\<close>, \<open>strings.HasPrefix\<close> with \<open>$\<close>.
\<close>

text \<open>\<open>strings.Split(s, sep)\<close> for a one-byte separator: the pieces between the
  separators, in order; a string without separator gives the one-element list.\<close>

fun Split :: "string \<Rightarrow> char \<Rightarrow> string list" where
  "Split [] sep = [[]]"
| "Split (c # cs) sep =
     (if c = sep then [] # Split cs sep
      else (case Split cs sep of
              [] \<Rightarrow> [[c]]
            | x # xs \<Rightarrow> (c # x) # xs))"

text \<open>\<open>strings.ReplaceAll(s, old, new)\<close>: the non-overlapping occurrences of \<open>old\<close>
  are replaced from left to right. For an empty \<open>old\<close> Go inserts \<open>new\<close> before every
  character and at the end (the source never does that).\<close>

function ReplaceAll :: "string \<Rightarrow> string \<Rightarrow> string \<Rightarrow> string" where
  "ReplaceAll [] old new = (if old = [] then new else [])"
| "ReplaceAll (c # cs) old new =
     (if old = [] then new @ c # ReplaceAll cs old new
      else if prefix old (c # cs) then new @ ReplaceAll (drop (length old) (c # cs)) old new
      else c # ReplaceAll cs old new)"
  by pat_completeness auto
termination
  by (relation "measure (\<lambda>(s, old, new). length s)") auto

text \<open>\<open>strings.HasPrefix\<close>, \<open>strings.HasSuffix\<close> and \<open>strings.TrimSuffix\<close>.\<close>

definition HasPrefix :: "string \<Rightarrow> string \<Rightarrow> bool" where
  "HasPrefix s p = prefix p s"

definition HasSuffix :: "string \<Rightarrow> string \<Rightarrow> bool" where
  "HasSuffix s p = suffix p s"

definition TrimSuffix :: "string \<Rightarrow> string \<Rightarrow> string" where
  "TrimSuffix s p = (if HasSuffix s p then take (length s - length p) s else s)"

section \<open>Data model\<close>

text \<open>The fixed paths of \<open>main.go\<close> (lines 23--31).\<close>

definition sysPath :: string where
  "sysPath = ''/usr/lib/systemd/system''"

definition usrPath :: string where
  "usrPath = ''/etc/systemd/system''"

definition enablePath :: string where
  "enablePath = ''/etc/systemd/system/multi-user.target.wants''"

text \<open>\<open>unit.UnitOption\<close> of go-systemd: one \<open>Name=Value\<close> line of a section.\<close>

record UnitOption =
  Section :: string
  Name :: string
  Value :: string

type_synonym pid = nat

text \<open>The fields of \<open>exec.Cmd\<close> that the daemon uses. \<open>Process\<close> is \<open>None\<close> for Go's
  \<open>nil\<close>: the command has not been launched. \<open>Args\<close> holds the command name followed
  by the arguments, as \<open>exec.Command\<close> builds it. \<open>Path\<close> is the name as \<open>ExecStart\<close>
  gives it; the search for it in \<open>PATH\<close> belongs to the launch (\<open>Exec\<close> below).\<close>

record Cmd =
  Path :: string
  Args :: "string list"
  Dir :: string
  Process :: "pid option"

text \<open>
  The operating system as far as the daemon observes it.

  Files: a flat table from absolute paths to regular files and symbolic links (directories,
  permissions and relative link targets are not modelled; the unit directories and the
  enablement directory are taken to exist).

  Processes: a table from process ids to their state. How a running child reacts to
  \<open>SIGTERM\<close> is a property of the child: it exits promptly (within the five-second grace
  period of \<open>Stop\<close>), it exits but later than that, or it ignores the signal and never
  exits by itself. An exited child is taken to be reaped (zombies and the reuse of process
  ids are not modelled).
\<close>

datatype node = File string | Symlink string

datatype disposition = ExitsOnTerm | ExitsLate | NeverExits

datatype pstate = Running disposition | Exited

text \<open>
  The state of the daemon and of its surroundings: the file table, the process registry
  \<open>mapCommand\<close> (a Go map from service names to \<open>*exec.Cmd\<close>; a missing key reads as
  \<open>nil\<close>), the mutex \<open>lock\<close> (\<open>True\<close> while some operation holds it) and the process table.
  \<open>unguarded\<close> is a ghost field: it records the keys of the registry accesses that were
  made while the accessing code did not hold \<open>lock\<close>.
\<close>

record world =
  fs :: "string \<rightharpoonup> node"
  mapCommand :: "string \<rightharpoonup> Cmd"
  lock :: bool
  procs :: "pid \<rightharpoonup> pstate"
  next_pid :: pid
  unguarded :: "string list"

text \<open>
  What lies outside the repository and does not change while the daemon runs: the unit-file
  parser \<open>unit.Deserialize\<close> of go-systemd (result: an error text or the options),
  \<open>os.Getenv\<close> (the empty string for an unset variable), and whether launching a command
  succeeds (an error text, or the disposition of the new child).
\<close>

record env =
  Deserialize :: "string \<Rightarrow> string + UnitOption list"
  Getenv :: "string \<Rightarrow> string"
  Exec :: "Cmd \<Rightarrow> string + disposition"

text \<open>
  How a call ends: it returns a value, it blocks forever (a wait that never ends, or
  \<open>lock.Lock()\<close> on a mutex that is never released), or it panics (a nil dereference, which
  ends the daemon since no goroutine recovers). Go's \<open>error\<close> results are \<open>string option\<close>:
  \<open>None\<close> is \<open>nil\<close>, \<open>Some m\<close> an error whose \<open>Error()\<close> text is \<open>m\<close>.
\<close>

datatype 'a flow = Returns 'a | Blocked | Panic

section \<open>Operating-system calls\<close>

text \<open>Path resolution follows at most 40 symbolic links, as Linux does.\<close>

fun follow :: "nat \<Rightarrow> (string \<rightharpoonup> node) \<Rightarrow> string \<Rightarrow> string option" where
  "follow 0 t p = None"
| "follow (Suc k) t p =
     (case t p of
        None \<Rightarrow> None
      | Some (File c) \<Rightarrow> Some c
      | Some (Symlink q) \<Rightarrow> follow k t q)"

text \<open>\<open>os.Stat(path)\<close>: \<open>True\<close> when it returns no error.\<close>

definition os_Stat :: "(string \<rightharpoonup> node) \<Rightarrow> string \<Rightarrow> bool" where
  "os_Stat t p = (follow 41 t p \<noteq> None)"

definition os_ReadFile :: "(string \<rightharpoonup> node) \<Rightarrow> string \<Rightarrow> string + string" where
  "os_ReadFile t p =
     (case follow 41 t p of
        None \<Rightarrow> Inl (''open '' @ p @ '': no such file or directory'')
      | Some c \<Rightarrow> Inr c)"

text \<open>\<open>os.Symlink(old, new)\<close> fails when \<open>new\<close> exists already.\<close>

definition os_Symlink :: "(string \<rightharpoonup> node) \<Rightarrow> string \<Rightarrow> string \<Rightarrow> string + (string \<rightharpoonup> node)" where
  "os_Symlink t old new =
     (case t new of
        Some n \<Rightarrow> Inl (''symlink '' @ old @ '' '' @ new @ '': file exists'')
      | None \<Rightarrow> Inr (t(new \<mapsto> Symlink old)))"

text \<open>\<open>os.Remove(path)\<close> fails when nothing is there.\<close>

definition os_Remove :: "(string \<rightharpoonup> node) \<Rightarrow> string \<Rightarrow> string + (string \<rightharpoonup> node)" where
  "os_Remove t p =
     (case t p of
        None \<Rightarrow> Inl (''remove '' @ p @ '': no such file or directory'')
      | Some n \<Rightarrow> Inr (t(p := None)))"

text \<open>\<open>Signal(SIGTERM)\<close> followed by a \<open>Wait()\<close> without timeout (lines 363--364): the
  state of the child when the wait returns, \<open>None\<close> when it never returns.\<close>

fun term_wait :: "pstate option \<Rightarrow> pstate option option" where
  "term_wait (Some (Running NeverExits)) = None"
| "term_wait (Some (Running d)) = Some (Some Exited)"
| "term_wait st = Some st"

text \<open>\<open>Signal(SIGTERM)\<close> followed by the race of \<open>Process.Wait()\<close> against the
  five-second timer (lines 452--476): which branch of the \<open>select\<close> is taken.\<close>

datatype stop_path = Graceful | Forced | AlreadyExited

fun grace_wait :: "pstate option \<Rightarrow> stop_path" where
  "grace_wait (Some (Running ExitsOnTerm)) = Graceful"
| "grace_wait (Some (Running d)) = Forced"
| "grace_wait st = AlreadyExited"

text \<open>\<open>isProcessRunning(pid)\<close> (lines 500--507): signal 0 is delivered.\<close>

definition isProcessRunning :: "world \<Rightarrow> pid \<Rightarrow> bool" where
  "isProcessRunning w p = (case procs w p of Some (Running d) \<Rightarrow> True | _ \<Rightarrow> False)"

text \<open>\<open>command.Start()\<close>: on success the child gets a fresh process id.\<close>

definition command_Start :: "env \<Rightarrow> world \<Rightarrow> Cmd \<Rightarrow> string + (pid \<times> world)" where
  "command_Start E w c =
     (case Exec E c of
        Inl err \<Rightarrow> Inl err
      | Inr d \<Rightarrow> Inr (next_pid w,
                 w\<lparr>procs := (procs w)(next_pid w \<mapsto> Running d), next_pid := Suc (next_pid w)\<rparr>))"

text \<open>The ghost step of a registry access: the key is recorded when the mutex is not
  held.\<close>

definition access :: "world \<Rightarrow> string \<Rightarrow> world" where
  "access w k = (if lock w then w else w\<lparr>unguarded := unguarded w @ [k]\<rparr>)"

definition Unlock :: "world \<Rightarrow> world" where
  "Unlock w = w\<lparr>lock := False\<rparr>"

section \<open>The service definition loader\<close>

text \<open>\<open>parseSystemdService\<close> (lines 130--136) wraps the parser's error.\<close>

definition parseSystemdService :: "env \<Rightarrow> string \<Rightarrow> string + UnitOption list" where
  "parseSystemdService E content =
     (case Deserialize E content of
        Inl err \<Rightarrow> Inl (''failed to parse service file: '' @ err)
      | Inr opts \<Rightarrow> Inr opts)"

text \<open>\<open>getOptions\<close> (lines 139--146): the value of the first option with the section and
  the name, or the error. Where the source drops the error (\<open>val, _ = ...\<close>), the value
  read is the empty string that Go returns beside the error: \<open>value_or_empty\<close>.\<close>

fun getOptions :: "UnitOption list \<Rightarrow> string \<Rightarrow> string \<Rightarrow> string + string" where
  "getOptions [] section name = Inl (''option '' @ section @ ''.'' @ name @ '' not found'')"
| "getOptions (option # list) section name =
     (if Section option = section \<and> Name option = name then Inr (Value option)
      else getOptions list section name)"

definition value_or_empty :: "string + string \<Rightarrow> string" where
  "value_or_empty r = (case r of Inl err \<Rightarrow> [] | Inr v \<Rightarrow> v)"

text \<open>\<open>find\<close> (lines 176--191): the user directory first, then the system directory;
  the empty string when neither has the unit file.\<close>

definition find_service :: "(string \<rightharpoonup> node) \<Rightarrow> string \<Rightarrow> string" where
  "find_service t service =
     (if os_Stat t (usrPath @ ''/'' @ service @ ''.service'')
        then usrPath @ ''/'' @ service @ ''.service''
      else if os_Stat t (sysPath @ ''/'' @ service @ ''.service'')
        then sysPath @ ''/'' @ service @ ''.service''
      else [])"

text \<open>The unit options that \<open>Start\<close> works with: the unit file is found, read and
  parsed (lines 342--358).\<close>

definition loaded_unit :: "env \<Rightarrow> world \<Rightarrow> string \<Rightarrow> UnitOption list option" where
  "loaded_unit E w service =
     (if find_service (fs w) service = [] then None
      else (case os_ReadFile (fs w) (find_service (fs w) service) of
              Inl err \<Rightarrow> None
            | Inr file \<Rightarrow>
                (case parseSystemdService E file of
                   Inl err \<Rightarrow> None
                 | Inr opts \<Rightarrow> Some opts)))"

text \<open>The loop of lines 382--391 over the tokens after the first one: a token with the
  prefix \<open>$\<close> is looked up with \<open>os.Getenv\<close> (the whole token is the key) and kept only
  when the value is not empty; any other token is appended as it is.\<close>

fun expand_args :: "env \<Rightarrow> string list \<Rightarrow> string list" where
  "expand_args E [] = []"
| "expand_args E (s # ss) =
     (if HasPrefix s ''$''
        then (if Getenv E s \<noteq> [] then Getenv E s # expand_args E ss else expand_args E ss)
      else s # expand_args E ss)"

text \<open>Lines 377--399: the command built from \<open>ExecStart\<close> and \<open>WorkingDirectory\<close>.\<close>

definition build_command :: "env \<Rightarrow> UnitOption list \<Rightarrow> string \<Rightarrow> Cmd" where
  "build_command E systemdService val =
     (let val2 = value_or_empty (getOptions systemdService ''Service'' ''WorkingDirectory'');
          split = Split val CHR '' '';
          cmdArgs = (if length split > 1 then expand_args E (tl split) else [])
      in \<lparr>Path = split ! 0, Args = (split ! 0) # cmdArgs,
          Dir = (if val2 \<noteq> [] then val2 else ''/root''), Process = None\<rparr>)"

section \<open>The supervision engine\<close>

text \<open>\<open>Enable\<close> (lines 308--320) and \<open>Disable\<close> (lines 324--332). Every operation
  begins with \<open>lock.Lock()\<close>, which never returns when the mutex is never released, and
  releases the mutex when it returns (\<open>defer lock.Unlock()\<close>).\<close>

definition Enable :: "world \<Rightarrow> string \<Rightarrow> string option flow \<times> world" where
  "Enable w0 service =
     (if lock w0 then (Blocked, w0)
      else
        let w = w0\<lparr>lock := True\<rparr>;
            path = find_service (fs w) service
        in if path = [] then (Returns (Some ''no service found''), Unlock w)
           else (case os_Symlink (fs w) path (enablePath @ ''/'' @ service @ ''.service'') of
                   Inl err \<Rightarrow> (Returns (Some err), Unlock w)
                 | Inr t \<Rightarrow> (Returns None, Unlock (w\<lparr>fs := t\<rparr>))))"

definition Disable :: "world \<Rightarrow> string \<Rightarrow> string option flow \<times> world" where
  "Disable w0 service =
     (if lock w0 then (Blocked, w0)
      else
        let w = w0\<lparr>lock := True\<rparr>
        in (case os_Remove (fs w) (enablePath @ ''/'' @ service @ ''.service'') of
              Inl err \<Rightarrow> (Returns (Some err), Unlock w)
            | Inr t \<Rightarrow> (Returns None, Unlock (w\<lparr>fs := t\<rparr>))))"

text \<open>What the goroutine of lines 413--436 captures: the service name, the budget
  \<open>try\<close>, the launched command and the parsed unit options.\<close>

record watcher =
  w_service :: string
  w_try :: int
  w_command :: Cmd
  w_systemdService :: "UnitOption list"

text \<open>Lines 360--365 of \<open>Start\<close>: a registered command with a process is sent
  \<open>SIGTERM\<close> and waited for; \<open>None\<close> when that wait never returns.\<close>

definition terminate_existing :: "world \<Rightarrow> Cmd option \<Rightarrow> world option" where
  "terminate_existing w process =
     (case process of
        None \<Rightarrow> Some w
      | Some c \<Rightarrow>
          (case Process c of
             None \<Rightarrow> Some w
           | Some p \<Rightarrow>
               (case term_wait (procs w p) of
                  None \<Rightarrow> None
                | Some st \<Rightarrow> Some (w\<lparr>procs := (procs w)(p := st)\<rparr>))))"

text \<open>Lines 377--438 of \<open>Start\<close>: the command is stored in the registry before it is
  launched. The registry holds a pointer, so the process that \<open>command.Start()\<close> sets is
  seen through the registry too: the entry is stored again with it. On success the watcher
  goroutine is handed back with the result.\<close>

definition Start_launch ::
  "env \<Rightarrow> world \<Rightarrow> string \<Rightarrow> int \<Rightarrow> UnitOption list \<Rightarrow> string
     \<Rightarrow> string option flow \<times> watcher option \<times> world" where
  "Start_launch E w service try systemdService val =
     (let command = build_command E systemdService val;
          w1 = (access w service)\<lparr>mapCommand := (mapCommand w)(service \<mapsto> command)\<rparr>
      in (case command_Start E w1 command of
            Inl err \<Rightarrow> (Returns (Some err), None, Unlock w1)
          | Inr (p, w2) \<Rightarrow>
              (Returns None,
               Some \<lparr>w_service = service, w_try = try,
                     w_command = command\<lparr>Process := Some p\<rparr>,
                     w_systemdService = systemdService\<rparr>,
               Unlock (w2\<lparr>mapCommand :=
                            (mapCommand w2)(service \<mapsto> command\<lparr>Process := Some p\<rparr>)\<rparr>))))"

text \<open>\<open>Start\<close> (lines 336--439). \<open>try\<close> is a Go \<open>int\<close>; it is only ever decremented
  when positive, so it never wraps and is modelled as \<open>int\<close>.\<close>

definition Start ::
  "env \<Rightarrow> world \<Rightarrow> string \<Rightarrow> int \<Rightarrow> string option flow \<times> watcher option \<times> world" where
  "Start E w0 service try =
     (if lock w0 then (Blocked, None, w0)
      else
        let w = w0\<lparr>lock := True\<rparr>;
            path = find_service (fs w) service
        in if path = [] then (Returns (Some ''no service found''), None, Unlock w)
           else (case os_ReadFile (fs w) path of
                   Inl err \<Rightarrow> (Returns (Some err), None, Unlock w)
                 | Inr file \<Rightarrow>
                     (case parseSystemdService E file of
                        Inl err \<Rightarrow> (Returns (Some err), None, Unlock w)
                      | Inr systemdService \<Rightarrow>
                          (case terminate_existing (access w service) (mapCommand w service) of
                             None \<Rightarrow> (Blocked, None, access w service)
                           | Some w2 \<Rightarrow>
                               (case getOptions systemdService ''Service'' ''ExecStart'' of
                                  Inl err \<Rightarrow> (Returns (Some err), None, Unlock w2)
                                | Inr val \<Rightarrow>
                                    if val = [] then
                                      (Returns (Some ''ExecStart not found''), None, Unlock w2)
                                    else Start_launch E w2 service try systemdService val)))))"

text \<open>
  The watcher goroutine (lines 413--436), run when the child has exited:
  \<open>command.Wait()\<close> has returned, so the child is gone (\<open>reaped\<close>), and \<open>exitCode\<close> is
  what \<open>command.ProcessState.ExitCode()\<close> yields (-1 when the child was killed by a
  signal or its state is missing). The five-second sleep before the restart is not
  modelled. The registry is read (without the mutex) only when the policy is \<open>always\<close>,
  by Go's short-circuit \<open>&&\<close>.
  The verdict tells which way the goroutine ended: one of the two early returns, an
  exhausted budget, or the call \<open>Start(service, try-1)\<close> with its result.
\<close>

definition reaped :: "world \<Rightarrow> Cmd \<Rightarrow> world" where
  "reaped w c =
     (case Process c of
        None \<Rightarrow> w
      | Some p \<Rightarrow> w\<lparr>procs := (procs w)(p \<mapsto> Exited)\<rparr>)"

datatype verdict = Removed | CleanExit | Exhausted | Restart "string option flow"

definition watcher_run ::
  "env \<Rightarrow> world \<Rightarrow> watcher \<Rightarrow> int \<Rightarrow> verdict \<times> watcher option \<times> world" where
  "watcher_run E w0 g exitCode =
     (let service = w_service g;
          try = w_try g;
          w = reaped w0 (w_command g);
          val = value_or_empty (getOptions (w_systemdService g) ''Service'' ''Restart'');
          w1 = (if val = ''always'' then access w service else w)
      in if val = ''always'' \<and> mapCommand w1 service = None then (Removed, None, w1)
         else if val = ''on-failure'' \<and> exitCode = 0 then (CleanExit, None, w1)
         else if try > 0 then
           (case Start E w1 service (try - 1) of (r, g', w2) \<Rightarrow> (Restart r, g', w2))
         else (Exhausted, None, w1))"

text \<open>\<open>Stop\<close> (lines 443--480). The source calls \<open>command.Process.Signal\<close> without
  the nil check that \<open>Start\<close> and \<open>Status\<close> make: for a registered command that was never
  launched this dereferences nil.\<close>

definition Stop :: "world \<Rightarrow> string \<Rightarrow> string option flow \<times> world" where
  "Stop w0 service =
     (if lock w0 then (Blocked, w0)
      else
        let w = access (w0\<lparr>lock := True\<rparr>) service
        in (case mapCommand w service of
              None \<Rightarrow> (Returns (Some ''service is not run''), Unlock w)
            | Some command \<Rightarrow>
                (case Process command of
                   None \<Rightarrow> (Panic, Unlock w)
                 | Some p \<Rightarrow>
                     let w1 = (case grace_wait (procs w p) of
                                 Graceful \<Rightarrow> w\<lparr>procs := (procs w)(p \<mapsto> Exited)\<rparr>
                               | Forced \<Rightarrow> w\<lparr>procs := (procs w)(p \<mapsto> Exited)\<rparr>
                               | AlreadyExited \<Rightarrow> w);
                         w2 = (access w1 service)\<lparr>mapCommand := (mapCommand w1)(service := None)\<rparr>
                     in (Returns None, Unlock w2))))"

text \<open>\<open>Status\<close> (lines 484--496): \<open>Inl\<close> is the error, \<open>Inr\<close> the state text.\<close>

definition Status :: "world \<Rightarrow> string \<Rightarrow> (string + string) flow \<times> world" where
  "Status w0 service =
     (if lock w0 then (Blocked, w0)
      else
        let w = w0\<lparr>lock := True\<rparr>;
            path = find_service (fs w) service
        in if path = [] then (Returns (Inl ''no service found''), Unlock w)
           else
             let w1 = access w service
             in (case mapCommand w1 service of
                   None \<Rightarrow> (Returns (Inr ''exited''), Unlock w1)
                 | Some command \<Rightarrow>
                     (case Process command of
                        None \<Rightarrow> (Returns (Inr ''exited''), Unlock w1)
                      | Some p \<Rightarrow>
                          if \<not> isProcessRunning w1 p then (Returns (Inr ''exited''), Unlock w1)
                          else (Returns (Inr ''running''), Unlock w1))))"

section \<open>The command protocol handler\<close>

text \<open>
  What the client sees of one connection: nothing before the connection is closed, a
  reply text, or the daemon ending (\<open>os.Exit(0)\<close> on \<open>reboot\<close>, a panic) or never
  answering (the operation blocks).
\<close>

datatype reply = NoReply | Reply string | DaemonExit | DaemonCrash | NoAnswer

text \<open>Lines 297--303: the error's text, or \<open>success\<close>.\<close>

definition respond :: "string option flow \<Rightarrow> reply" where
  "respond r =
     (case r of
        Returns None \<Rightarrow> Reply ''success''
      | Returns (Some err) \<Rightarrow> Reply err
      | Blocked \<Rightarrow> NoAnswer
      | Panic \<Rightarrow> DaemonCrash)"

text \<open>The \<open>switch\<close> of lines 271--296 with the reply of lines 297--303. It has no
  default case: for an operation that it does not list, \<open>err\<close> still is the nil of line
  261 when line 297 tests it.\<close>

definition dispatch ::
  "env \<Rightarrow> world \<Rightarrow> string \<Rightarrow> string \<Rightarrow> reply \<times> watcher option \<times> world" where
  "dispatch E w op name =
     (if op = ''enable'' then
        (case Enable w name of (r, w') \<Rightarrow> (respond r, None, w'))
      else if op = ''disable'' then
        (case Disable w name of (r, w') \<Rightarrow> (respond r, None, w'))
      else if op = ''start'' then
        (case Start E w name 5 of (r, g, w') \<Rightarrow> (respond r, g, w'))
      else if op = ''stop'' then
        (case Stop w name of (r, w') \<Rightarrow> (respond r, None, w'))
      else if op = ''status'' then
        (case Status w name of
           (Returns (Inr res), w') \<Rightarrow> (Reply res, None, w')
         | (Returns (Inl err2), w') \<Rightarrow> (respond (Returns (Some err2)), None, w')
         | (Blocked, w') \<Rightarrow> (NoAnswer, None, w')
         | (Panic, w') \<Rightarrow> (DaemonCrash, None, w'))
      else if op = ''reboot'' then (DaemonExit, None, w)
      else (respond (Returns None), None, w))"

text \<open>\<open>handleConnection\<close> (lines 257--304). \<open>rd\<close> is the result of \<open>conn.Read\<close>:
  the error, or the bytes read (at most 1024).\<close>

definition handleConnection ::
  "env \<Rightarrow> world \<Rightarrow> string + string \<Rightarrow> reply \<times> watcher option \<times> world" where
  "handleConnection E w rd =
     (case rd of
        Inl err \<Rightarrow> (NoReply, None, w)
      | Inr msg \<Rightarrow>
          let split = Split msg CHR '':''
          in if length split < 2 then (NoReply, None, w)
             else dispatch E w (split ! 0) (ReplaceAll (split ! 1) ''.service'' []))"

section \<open>Sequences of calls\<close>

text \<open>The calls that the daemon makes on the supervision engine: the five operations
  (from connections or the boot walk) and the runs of watcher goroutines.\<close>

datatype call =
    CallEnable string
  | CallDisable string
  | CallStart string int
  | CallStop string
  | CallStatus string
  | CallWatcher watcher int

fun perform :: "env \<Rightarrow> world \<Rightarrow> call \<Rightarrow> world" where
  "perform E w (CallEnable n) = snd (Enable w n)"
| "perform E w (CallDisable n) = snd (Disable w n)"
| "perform E w (CallStart n try) = snd (snd (Start E w n try))"
| "perform E w (CallStop n) = snd (Stop w n)"
| "perform E w (CallStatus n) = snd (Status w n)"
| "perform E w (CallWatcher g exitCode) = snd (snd (watcher_run E w g exitCode))"

fun perform_all :: "env \<Rightarrow> world \<Rightarrow> call list \<Rightarrow> world" where
  "perform_all E w [] = w"
| "perform_all E w (c # cs) = perform_all E (perform E w c) cs"

text \<open>A call starts the service \<open>s\<close> when it is \<open>Start\<close> for \<open>s\<close> or the run of a
  watcher of \<open>s\<close> (which exists only after a \<open>Start\<close> for \<open>s\<close>).\<close>

fun starts :: "string \<Rightarrow> call \<Rightarrow> bool" where
  "starts s (CallStart n try) = (n = s)"
| "starts s (CallWatcher g exitCode) = (w_service g = s)"
| "starts s c = False"

section \<open>A supervised service from start to the end of its restarts\<close>

text \<open>
  A successful \<open>Start\<close> leaves one watcher; when the child exits the watcher runs and may
  call \<open>Start\<close> again, which leaves the next watcher. \<open>supervise\<close> follows this chain for
  one service: \<open>exits k\<close> is the exit code of the \<open>k\<close>-th child, and \<open>others k\<close> are the
  calls that the daemon makes for other connections and watchers while that child runs.
  It returns, for every restart that a watcher of the chain made, the budget passed to
  \<open>Start\<close> and how that call ended.
\<close>

lemma Start_watcher_try:
  "Start E w service try = (r, Some g, w') \<Longrightarrow> w_try g = try \<and> w_service g = service"
  by (auto simp: Start_def Start_launch_def Let_def
           split: if_splits sum.splits option.splits prod.splits)

lemma watcher_run_budget:
  "watcher_run E w g c = (v, Some g', w') \<Longrightarrow>
     0 < w_try g \<and> w_try g' = w_try g - 1 \<and> w_service g' = w_service g"
  by (auto simp: watcher_run_def Let_def split: if_splits prod.splits dest: Start_watcher_try)

function supervise ::
  "env \<Rightarrow> (nat \<Rightarrow> int) \<Rightarrow> (nat \<Rightarrow> call list) \<Rightarrow> nat \<Rightarrow> world \<Rightarrow> watcher
     \<Rightarrow> (int \<times> string option flow) list \<times> world" where
  "supervise E exits others k w g =
     (case watcher_run E (perform_all E w (others k)) g (exits k) of
        (Restart r, Some g', w') \<Rightarrow>
          (case supervise E exits others (Suc k) w' g' of
             (rs, w'') \<Rightarrow> ((w_try g - 1, r) # rs, w''))
      | (Restart r, None, w') \<Rightarrow> ([(w_try g - 1, r)], w')
      | (v, g', w') \<Rightarrow> ([], w'))"
  by pat_completeness auto
termination
  by (relation "measure (\<lambda>(E, exits, others, k, w, g). nat (w_try g))")
     (auto dest!: watcher_run_budget [OF sym])

declare supervise.simps [simp del]

text \<open>\<open>Start(service, n)\<close> followed by the chain of its watchers.\<close>

definition start_supervised ::
  "env \<Rightarrow> (nat \<Rightarrow> int) \<Rightarrow> (nat \<Rightarrow> call list) \<Rightarrow> world \<Rightarrow> string \<Rightarrow> int
     \<Rightarrow> string option flow \<times> (int \<times> string option flow) list \<times> world" where
  "start_supervised E exits others w service n =
     (case Start E w service n of
        (r, Some g, w') \<Rightarrow> (r, supervise E exits others 0 w' g)
      | (r, None, w') \<Rightarrow> (r, [], w'))"

section \<open>Example surroundings\<close>

text \<open>
  A small installation on which the theorems below are instantiated: four unit files, a
  parser that knows their texts, one environment variable, and the programs that can be
  launched. \<open>web\<close> restarts always, \<open>job\<close> on failure; \<open>broken\<close> has no \<open>ExecStart\<close>;
  the program of \<open>ghost\<close> does not exist.
\<close>

definition web_unit :: "UnitOption list" where
  "web_unit =
     [\<lparr>Section = ''Unit'', Name = ''Description'', Value = ''web''\<rparr>,
      \<lparr>Section = ''Service'', Name = ''ExecStart'', Value = ''/bin/web --port $PORT''\<rparr>,
      \<lparr>Section = ''Service'', Name = ''Restart'', Value = ''always''\<rparr>]"

definition job_unit :: "UnitOption list" where
  "job_unit =
     [\<lparr>Section = ''Service'', Name = ''ExecStart'', Value = ''/bin/false''\<rparr>,
      \<lparr>Section = ''Service'', Name = ''Restart'', Value = ''on-failure''\<rparr>]"

definition broken_unit :: "UnitOption list" where
  "broken_unit = [\<lparr>Section = ''Service'', Name = ''Restart'', Value = ''always''\<rparr>]"

definition ghost_unit :: "UnitOption list" where
  "ghost_unit = [\<lparr>Section = ''Service'', Name = ''ExecStart'', Value = ''/bin/missing''\<rparr>]"

definition example_env :: env where
  "example_env =
     \<lparr>Deserialize = (\<lambda>text.
          if text = ''web'' then Inr web_unit
          else if text = ''job'' then Inr job_unit
          else if text = ''broken'' then Inr broken_unit
          else if text = ''ghost'' then Inr ghost_unit
          else Inl ''unable to parse''),
      Getenv = (\<lambda>key. if key = ''PORT'' then ''8080'' else []),
      Exec = (\<lambda>c.
          if Path c = ''/bin/web'' then Inr ExitsOnTerm
          else if Path c = ''/bin/false'' then Inr ExitsOnTerm
          else Inl ''exec: no such file or directory'')\<rparr>"

definition example_fs :: "string \<rightharpoonup> node" where
  "example_fs =
     [''/etc/systemd/system/web.service'' \<mapsto> File ''web'',
      ''/usr/lib/systemd/system/job.service'' \<mapsto> File ''job'',
      ''/etc/systemd/system/broken.service'' \<mapsto> File ''broken'',
      ''/etc/systemd/system/ghost.service'' \<mapsto> File ''ghost'']"

definition example_world :: world where
  "example_world =
     \<lparr>fs = example_fs, mapCommand = Map.empty, lock = False,
      procs = Map.empty, next_pid = 100, unguarded = []\<rparr>"

text \<open>Worlds in which a launched command with process id 7 is registered for a
  service, the process being in a given state.\<close>

definition web_cmd :: "pid option \<Rightarrow> Cmd" where
  "web_cmd p = \<lparr>Path = ''/bin/web'', Args = [''/bin/web'', ''--port''], Dir = ''/root'', Process = p\<rparr>"

definition registered_world :: "string \<Rightarrow> pstate option \<Rightarrow> world" where
  "registered_world s st =
     example_world\<lparr>mapCommand := [s \<mapsto> web_cmd (Some 7)], procs := Map.empty(7 := st)\<rparr>"

text \<open>Watchers of the example services, as \<open>Start\<close> leaves them for process 7.\<close>

definition web_watcher :: "int \<Rightarrow> watcher" where
  "web_watcher try =
     \<lparr>w_service = ''web'', w_try = try, w_command = web_cmd (Some 7),
      w_systemdService = web_unit\<rparr>"

definition job_watcher :: "int \<Rightarrow> watcher" where
  "job_watcher try =
     \<lparr>w_service = ''job'', w_try = try, w_command = web_cmd (Some 7),
      w_systemdService = job_unit\<rparr>"

section \<open>Facts about the string primitives\<close>

lemma Split_nonempty: "Split s sep \<noteq> []"
  by (induction s) (auto split: list.splits)

lemma Split_no_sep: "sep \<notin> set a \<Longrightarrow> Split a sep = [a]"
  by (induction a) auto

lemma Split_at_sep: "sep \<notin> set a \<Longrightarrow> Split (a @ sep # b) sep = a # Split b sep"
  by (induction a) auto

lemma length_Split: "length (Split s sep) = Suc (count_list s sep)"
  by (induction s) (auto split: list.splits simp: Split_nonempty)

lemma prefix_before_fresh:
  "prefix r (a @ c # b) \<Longrightarrow> c \<notin> set r \<Longrightarrow> prefix r a"
  by (auto simp: prefix_append prefix_Cons)

lemma ReplaceAll_skip:
  "old \<noteq> [] \<Longrightarrow> \<not> prefix old (c # cs) \<Longrightarrow>
     ReplaceAll (c # cs) old new = c # ReplaceAll cs old new"
  by simp

lemma ReplaceAll_hit:
  "old \<noteq> [] \<Longrightarrow> prefix old (c # cs) \<Longrightarrow>
     ReplaceAll (c # cs) old new = new @ ReplaceAll (drop (length old) (c # cs)) old new"
  by simp

lemma ReplaceAll_Nil: "old \<noteq> [] \<Longrightarrow> ReplaceAll [] old new = []"
  by simp

declare ReplaceAll.simps [simp del]

lemma ReplaceAll_absent:
  "old \<noteq> [] \<Longrightarrow> \<not> sublist old s \<Longrightarrow> ReplaceAll s old new = s"
proof (induction s)
  case Nil
  then show ?case by (simp add: ReplaceAll_Nil)
next
  case (Cons c cs)
  from Cons.prems have np: "\<not> prefix old (c # cs)"
    using prefix_imp_sublist by blast
  from Cons.prems have "\<not> sublist old cs"
    by (meson sublist_Cons_right)
  then have "ReplaceAll cs old new = cs"
    using Cons.IH Cons.prems(1) by blast
  then show ?case
    by (simp only: ReplaceAll_skip [OF Cons.prems(1) np])
qed

lemma ReplaceAll_trailing:
  assumes "c0 \<notin> set rest" and "\<not> sublist (c0 # rest) s"
  shows "ReplaceAll (s @ c0 # rest) (c0 # rest) [] = s"
  using assms(2)
proof (induction s)
  case Nil
  have "ReplaceAll (c0 # rest) (c0 # rest) [] = [] @ ReplaceAll (drop (length (c0 # rest)) (c0 # rest)) (c0 # rest) []"
    by (rule ReplaceAll_hit) simp_all
  then show ?case by (simp add: ReplaceAll_Nil)
next
  case (Cons c cs)
  have np: "\<not> prefix (c0 # rest) (c # cs)"
    using Cons.prems prefix_imp_sublist by blast
  have np2: "\<not> prefix (c0 # rest) (c # (cs @ c0 # rest))"
  proof
    assume "prefix (c0 # rest) (c # (cs @ c0 # rest))"
    then have both: "c0 = c \<and> prefix rest (cs @ c0 # rest)"
      by (rule iffD1 [OF Cons_prefix_Cons])
    then have "c0 = c" by blast
    have "prefix rest cs"
      by (rule prefix_before_fresh [OF conjunct2 [OF both] assms(1)])
    with \<open>c0 = c\<close> np show False by (simp only: Cons_prefix_Cons simp_thms)
  qed
  from Cons.prems have "\<not> sublist (c0 # rest) cs"
    by (meson sublist_Cons_right)
  then have ih: "ReplaceAll (cs @ c0 # rest) (c0 # rest) [] = cs"
    using Cons.IH by blast
  have "ReplaceAll (c # (cs @ c0 # rest)) (c0 # rest) [] = c # ReplaceAll (cs @ c0 # rest) (c0 # rest) []"
    by (rule ReplaceAll_skip [OF _ np2]) simp
  then show ?case by (simp only: ih append_Cons)
qed

lemma Split_second_field:
  assumes "CHR '':'' \<notin> set field" and "rest = [] \<or> hd rest = CHR '':''"
  shows "hd (Split (field @ rest) CHR '':'') = field"
proof (cases rest)
  case Nil
  then show ?thesis using assms(1) by (simp add: Split_no_sep)
next
  case (Cons c tail)
  with assms(2) have "rest = CHR '':'' # tail" by simp
  then show ?thesis using assms(1) by (simp add: Split_at_sep)
qed

lemma strip_unit_suffix:
  assumes "\<not> sublist ''.service'' base" and "field = base \<or> field = base @ ''.service''"
  shows "ReplaceAll field ''.service'' [] = base"
proof -
  have a: "ReplaceAll base ''.service'' [] = base"
    using assms(1) by (simp add: ReplaceAll_absent)
  have "CHR ''.'' \<notin> set ''service''" by simp
  then have b: "ReplaceAll (base @ ''.service'') ''.service'' [] = base"
    using assms(1) by (rule ReplaceAll_trailing)
  from assms(2) a b show ?thesis by auto
qed

section \<open>Facts about the loader and the handler\<close>

lemma follow_41:
  "follow 41 t p =
     (case t p of None \<Rightarrow> None | Some (File c) \<Rightarrow> Some c | Some (Symlink q) \<Rightarrow> follow 40 t q)"
proof -
  have "(41::nat) = Suc 40" by simp
  then show ?thesis by (simp only: follow.simps)
qed

lemma os_Stat_unfold:
  "os_Stat t p =
     (case t p of None \<Rightarrow> False | Some (File c) \<Rightarrow> True | Some (Symlink q) \<Rightarrow> follow 40 t q \<noteq> None)"
  by (simp add: os_Stat_def follow_41 split: option.splits node.splits)

lemma find_service_empty:
  "find_service t s = [] \<longleftrightarrow>
     \<not> os_Stat t (usrPath @ ''/'' @ s @ ''.service'') \<and> \<not> os_Stat t (sysPath @ ''/'' @ s @ ''.service'')"
  by (simp add: find_service_def usrPath_def sysPath_def)




lemma build_command_Process: "Process (build_command E opts val) = None"
  by (simp add: build_command_def Let_def)

lemma respond_nil: "respond (Returns None) = Reply ''success''"
  by (simp add: respond_def)

lemma handleConnection_fields:
  assumes "CHR '':'' \<notin> set op"
  shows "handleConnection E w (Inr (op @ CHR '':'' # rest)) =
           dispatch E w op (ReplaceAll (hd (Split rest CHR '':'')) ''.service'' [])"
proof -
  have s: "Split (op @ CHR '':'' # rest) CHR '':'' = op # Split rest CHR '':''"
    using assms by (rule Split_at_sep)
  obtain f fs where f: "Split rest CHR '':'' = f # fs"
    using Split_nonempty [of rest "CHR '':''"] by (cases "Split rest CHR '':''") auto
  show ?thesis
    by (simp add: handleConnection_def s f)
qed

lemma handleConnection_no_colon:
  assumes "CHR '':'' \<notin> set msg"
  shows "handleConnection E w (Inr msg) = (NoReply, None, w)"
  by (simp add: handleConnection_def Split_no_sep [OF assms])

section \<open>Facts about the operations\<close>

lemma Enable_result:
  "\<not> lock w \<Longrightarrow> Enable w s =
     (if find_service (fs w) s = [] then (Returns (Some ''no service found''), w)
      else (case fs w (enablePath @ ''/'' @ s @ ''.service'') of
              Some n \<Rightarrow> (Returns (Some (''symlink '' @ find_service (fs w) s @ '' '' @
                                          enablePath @ ''/'' @ s @ ''.service'' @ '': file exists'')), w)
            | None \<Rightarrow> (Returns None,
                 w\<lparr>fs := (fs w)(enablePath @ ''/'' @ s @ ''.service'' \<mapsto> Symlink (find_service (fs w) s))\<rparr>)))"
  by (simp add: Enable_def Let_def os_Symlink_def Unlock_def split: option.splits)

lemma Disable_result:
  "\<not> lock w \<Longrightarrow> Disable w s =
     (case fs w (enablePath @ ''/'' @ s @ ''.service'') of
        None \<Rightarrow> (Returns (Some (''remove '' @ enablePath @ ''/'' @ s @ ''.service'' @
                                  '': no such file or directory'')), w)
      | Some n \<Rightarrow> (Returns None, w\<lparr>fs := (fs w)(enablePath @ ''/'' @ s @ ''.service'' := None)\<rparr>))"
  by (simp add: Disable_def Let_def os_Remove_def Unlock_def split: option.splits)

lemma Enable_lock: "\<not> lock w \<Longrightarrow> \<not> lock (snd (Enable w s))"
  by (simp add: Enable_result split: option.splits)

lemma Stop_result:
  "\<not> lock w \<Longrightarrow> Stop w s =
     (case mapCommand w s of
        None \<Rightarrow> (Returns (Some ''service is not run''), w)
      | Some c \<Rightarrow>
          (case Process c of
             None \<Rightarrow> (Panic, w)
           | Some p \<Rightarrow>
               (Returns None,
                w\<lparr>mapCommand := (mapCommand w)(s := None),
                  procs := (case grace_wait (procs w p) of
                              AlreadyExited \<Rightarrow> procs w
                            | _ \<Rightarrow> (procs w)(p \<mapsto> Exited))\<rparr>)))"
  by (simp add: Stop_def Let_def access_def Unlock_def split: option.splits stop_path.splits)

lemma Status_result:
  "\<not> lock w \<Longrightarrow> Status w s =
     (if find_service (fs w) s = [] then (Returns (Inl ''no service found''), w)
      else (Returns (Inr (if (\<exists>c p. mapCommand w s = Some c \<and> Process c = Some p
                                   \<and> isProcessRunning w p)
                          then ''running'' else ''exited'')), w))"
  by (auto simp: Status_def Let_def access_def Unlock_def isProcessRunning_def
           split: option.splits)

lemma Status_not_running:
  "mapCommand w s = None \<Longrightarrow> fst (Status w s) \<noteq> Returns (Inr ''running'')"
  by (simp add: Status_def Let_def access_def Unlock_def split: option.splits)

subsection \<open>What the operations do to the registry\<close>

text \<open>No call creates a registry entry for a service other than the one it starts.\<close>

lemma Enable_registry: "mapCommand (snd (Enable w n)) = mapCommand w"
  by (simp add: Enable_def Let_def Unlock_def split: sum.splits)

lemma Disable_registry: "mapCommand (snd (Disable w n)) = mapCommand w"
  by (simp add: Disable_def Let_def Unlock_def split: sum.splits)

lemma Status_registry: "mapCommand (snd (Status w n)) = mapCommand w"
  by (simp add: Status_def Let_def Unlock_def access_def split: option.splits)

lemma Stop_registry: "mapCommand w s = None \<Longrightarrow> mapCommand (snd (Stop w n)) s = None"
  by (simp add: Stop_def Let_def Unlock_def access_def split: option.splits stop_path.splits)

lemma terminate_existing_registry:
  "terminate_existing w c = Some w' \<Longrightarrow> mapCommand w' = mapCommand w"
  by (auto simp: terminate_existing_def split: option.splits)

lemma Start_launch_registry:
  "n \<noteq> s \<Longrightarrow> mapCommand (snd (snd (Start_launch E w n try opts val))) s = mapCommand w s"
  by (simp add: Start_launch_def Let_def Unlock_def access_def command_Start_def
           split: sum.splits prod.splits)

lemma Start_registry:
  "n \<noteq> s \<Longrightarrow> mapCommand (snd (snd (Start E w n try))) s = mapCommand w s"
  by (auto simp: Start_def Let_def Unlock_def access_def Start_launch_registry
           split: sum.splits option.splits dest!: terminate_existing_registry)

lemma access_registry: "mapCommand (access w k) = mapCommand w"
  by (simp add: access_def)

lemma reaped_registry: "mapCommand (reaped w c) = mapCommand w"
  by (simp add: reaped_def split: option.splits)

lemma watcher_run_registry:
  "w_service g \<noteq> s \<Longrightarrow> mapCommand (snd (snd (watcher_run E w g c))) s = mapCommand w s"
  by (simp add: watcher_run_def Let_def split_beta access_registry reaped_registry
        Start_registry)

lemma perform_registry:
  "\<not> starts s c \<Longrightarrow> mapCommand w s = None \<Longrightarrow> mapCommand (perform E w c) s = None"
  by (cases c)
     (simp_all add: Enable_registry Disable_registry Status_registry Stop_registry
        Start_registry watcher_run_registry)

lemma perform_all_registry:
  "\<forall>c \<in> set cs. \<not> starts s c \<Longrightarrow> mapCommand w s = None \<Longrightarrow>
     mapCommand (perform_all E w cs) s = None"
  by (induction cs arbitrary: w) (simp_all add: perform_registry)

subsection \<open>Registry accesses and the mutex\<close>

lemma access_held: "lock w \<Longrightarrow> access w k = w"
  by (simp add: access_def)

lemma terminate_existing_fields:
  "terminate_existing w c = Some w' \<Longrightarrow> unguarded w' = unguarded w \<and> lock w' = lock w"
  by (auto simp: terminate_existing_def split: option.splits)

lemma Start_launch_unguarded:
  "lock w \<Longrightarrow> unguarded (snd (snd (Start_launch E w n try opts val))) = unguarded w"
  by (simp add: Start_launch_def Let_def Unlock_def access_held command_Start_def
           split: sum.splits prod.splits)

lemma Start_unguarded: "unguarded (snd (snd (Start E w n try))) = unguarded w"
  by (auto simp: Start_def Let_def Unlock_def access_held Start_launch_unguarded
           split: sum.splits option.splits dest!: terminate_existing_fields)

lemma Enable_unguarded: "unguarded (snd (Enable w n)) = unguarded w"
  by (simp add: Enable_def Let_def Unlock_def split: sum.splits)

lemma Disable_unguarded: "unguarded (snd (Disable w n)) = unguarded w"
  by (simp add: Disable_def Let_def Unlock_def split: sum.splits)

lemma Stop_unguarded: "unguarded (snd (Stop w n)) = unguarded w"
  by (simp add: Stop_def Let_def Unlock_def access_held split: option.splits stop_path.splits)

lemma Status_unguarded: "unguarded (snd (Status w n)) = unguarded w"
  by (simp add: Status_def Let_def Unlock_def access_held split: option.splits)

lemma reaped_fields: "unguarded (reaped w c) = unguarded w \<and> lock (reaped w c) = lock w"
  by (simp add: reaped_def split: option.splits)

subsection \<open>Start once the unit is loaded\<close>

lemma Start_loaded:
  assumes "\<not> lock w" and "loaded_unit E w s = Some opts"
  shows "Start E w s n =
     (case terminate_existing (w\<lparr>lock := True\<rparr>) (mapCommand w s) of
        None \<Rightarrow> (Blocked, None, w\<lparr>lock := True\<rparr>)
      | Some w2 \<Rightarrow>
          (case getOptions opts ''Service'' ''ExecStart'' of
             Inl err \<Rightarrow> (Returns (Some err), None, Unlock w2)
           | Inr val \<Rightarrow>
               if val = [] then (Returns (Some ''ExecStart not found''), None, Unlock w2)
               else Start_launch E w2 s n opts val))"
proof -
  from assms(2) have f: "find_service (fs w) s \<noteq> []"
    by (simp add: loaded_unit_def split: if_splits)
  with assms(2) obtain content where
    rf: "os_ReadFile (fs w) (find_service (fs w) s) = Inr content" and
    p: "parseSystemdService E content = Inr opts"
    by (auto simp: loaded_unit_def split: sum.splits)
  show ?thesis
    using assms(1) f rf p
    by (simp add: Start_def Let_def access_held cong: option.case_cong)
qed

lemma Start_launch_failed:
  assumes "Exec E (build_command E opts val) = Inl err" and "lock w"
  shows "Start_launch E w s n opts val =
           (Returns (Some err), None,
            w\<lparr>mapCommand := (mapCommand w)(s \<mapsto> build_command E opts val), lock := False\<rparr>)"
  using assms
  by (simp add: Start_launch_def Let_def command_Start_def access_held Unlock_def)

subsection \<open>The chain of restarts\<close>

lemma supervise_length: "length (fst (supervise E exits others k w g)) \<le> nat (w_try g)"
proof (induction E exits others k w g rule: supervise.induct)
  case (1 E exits others k w g)
  obtain v go w' where
    r: "watcher_run E (perform_all E w (others k)) g (exits k) = (v, go, w')"
    by (cases "watcher_run E (perform_all E w (others k)) g (exits k)") auto
  show ?case
  proof (cases v)
    case (Restart x)
    show ?thesis
    proof (cases go)
      case None
      from r Restart None have "0 < w_try g"
        by (auto simp: watcher_run_def Let_def split: if_splits prod.splits)
      then show ?thesis using r Restart None
        by (simp add: supervise.simps [of E exits others k w g])
    next
      case (Some g')
      with r have b: "0 < w_try g" "w_try g' = w_try g - 1"
        using watcher_run_budget by blast+
      from "1.IH" [OF r [symmetric, unfolded Restart Some] refl refl refl] 
      have "length (fst (supervise E exits others (Suc k) w' g')) \<le> nat (w_try g')" .
      then show ?thesis using r Restart Some b
        by (simp add: supervise.simps [of E exits others k w g] split_beta)
    qed
  qed (use r in \<open>simp_all add: supervise.simps [of E exits others k w g]\<close>)
qed

lemma countdown_Cons:
  "(b::int) # map (\<lambda>i. b - 1 - int i) [0..<m] = map (\<lambda>i. b - int i) [0..<Suc m]"
proof -
  have "[0..<Suc m] = 0 # map Suc [0..<m]"
    by (simp add: upt_conv_Cons map_Suc_upt del: upt_Suc)
  then show ?thesis by (simp add: comp_def del: upt_Suc)
qed

lemma supervise_budgets:
  "map fst (fst (supervise E exits others k w g)) =
     map (\<lambda>i. w_try g - 1 - int i) [0..<length (fst (supervise E exits others k w g))]"
proof (induction E exits others k w g rule: supervise.induct)
  case (1 E exits others k w g)
  obtain v go w' where
    r: "watcher_run E (perform_all E w (others k)) g (exits k) = (v, go, w')"
    by (cases "watcher_run E (perform_all E w (others k)) g (exits k)") auto
  show ?case
  proof (cases v)
    case (Restart x)
    show ?thesis
    proof (cases go)
      case None
      then show ?thesis using r Restart
        by (simp add: supervise.simps [of E exits others k w g])
    next
      case (Some g')
      with r have b: "w_try g' = w_try g - 1"
        using watcher_run_budget by blast
      from "1.IH" [OF r [symmetric, unfolded Restart Some] refl refl refl]
      have ih: "map fst (fst (supervise E exits others (Suc k) w' g')) =
                  map (\<lambda>i. w_try g - 1 - 1 - int i)
                      [0..<length (fst (supervise E exits others (Suc k) w' g'))]"
        by (simp only: b)
      have "fst (supervise E exits others k w g) = (w_try g - 1, x) # fst (supervise E exits others (Suc k) w' g')"
        using r Restart Some by (simp add: supervise.simps [of E exits others k w g] split_beta)
      then show ?thesis
        using ih countdown_Cons [of "w_try g - 1" "length (fst (supervise E exits others (Suc k) w' g'))"]
        by (simp del: upt_Suc)
    qed
  qed (use r in \<open>simp_all add: supervise.simps [of E exits others k w g]\<close>)
qed

subsection \<open>The examples\<close>

lemma job_policy:
  "value_or_empty (getOptions (w_systemdService (job_watcher n)) ''Service'' ''Restart'') = ''on-failure''"
  by (simp add: job_watcher_def job_unit_def value_or_empty_def)

lemma web_policy:
  "value_or_empty (getOptions (w_systemdService (web_watcher n)) ''Service'' ''Restart'') = ''always''"
  by (simp add: web_watcher_def web_unit_def value_or_empty_def)

lemma Start_job_example:
  "fst (Start example_env (reaped (registered_world ''job'' (Some (Running ExitsOnTerm)))
                                  (w_command (job_watcher 3))) ''job'' 2) = Returns None"
  by (simp add: Start_def Start_launch_def Let_def find_service_def os_Stat_unfold os_ReadFile_def
        follow_41 parseSystemdService_def terminate_existing_def command_Start_def
        build_command_def access_def Unlock_def reaped_def value_or_empty_def
        usrPath_def sysPath_def registered_world_def example_world_def example_fs_def
        example_env_def job_unit_def job_watcher_def web_cmd_def)

lemma loaded_broken:
  "loaded_unit example_env (registered_world ''broken'' st) ''broken'' = Some broken_unit"
  by (simp add: loaded_unit_def find_service_def os_Stat_unfold os_ReadFile_def follow_41
        parseSystemdService_def usrPath_def registered_world_def example_world_def
        example_fs_def example_env_def)

lemma loaded_ghost:
  "loaded_unit example_env example_world ''ghost'' = Some ghost_unit"
  by (simp add: loaded_unit_def find_service_def os_Stat_unfold os_ReadFile_def follow_41
        parseSystemdService_def usrPath_def example_world_def example_fs_def example_env_def)

text \<open>The service \<open>job\<close> fails every time: started with the budget 2, it is restarted
  exactly twice.\<close>

lemma job_run_example:
  "fst (snd (start_supervised example_env (\<lambda>k. 1) (\<lambda>k. []) example_world ''job'' 2))
     = [(1, Returns None), (0, Returns None)]"
  by (simp add: start_supervised_def supervise.simps watcher_run_def reaped_def
        Start_def Start_launch_def Let_def find_service_def os_Stat_unfold os_ReadFile_def
        follow_41 parseSystemdService_def terminate_existing_def command_Start_def
        build_command_def access_def Unlock_def value_or_empty_def
        usrPath_def sysPath_def example_world_def example_fs_def
        example_env_def job_unit_def)

section \<open>The claims\<close>

subsection \<open>C1: the restart policy of the watcher\<close>

text \<open>
  Claim C1. When the watched child has exited: with the policy \<open>on-failure\<close> and the
  exit code 0 the watcher ends without calling \<open>Start\<close>; with the policy \<open>always\<close> and no
  registry entry for the name it ends without calling \<open>Start\<close>; in every other case
  (\<open>always\<close> with the entry present, an unset or any other policy with any exit code,
  \<open>on-failure\<close> with a code other than 0) it takes the budget path: with \<open>try > 0\<close> it
  calls \<open>Start(service, try - 1)\<close>, and otherwise it ends.
\<close>

theorem watcher_run_policy:
  assumes "policy = value_or_empty (getOptions (w_systemdService g) ''Service'' ''Restart'')"
    and "w1 = (if policy = ''always'' then access (reaped w (w_command g)) (w_service g)
               else reaped w (w_command g))"
  shows "(policy = ''on-failure'' \<and> exitCode = 0 \<longrightarrow>
            watcher_run E w g exitCode = (CleanExit, None, w1))
       \<and> (policy = ''always'' \<and> mapCommand w (w_service g) = None \<longrightarrow>
            watcher_run E w g exitCode = (Removed, None, w1))
       \<and> (\<not> (policy = ''on-failure'' \<and> exitCode = 0)
            \<and> \<not> (policy = ''always'' \<and> mapCommand w (w_service g) = None) \<longrightarrow>
            (0 < w_try g \<longrightarrow>
               watcher_run E w g exitCode =
                 (Restart (fst (Start E w1 (w_service g) (w_try g - 1))),
                  snd (Start E w1 (w_service g) (w_try g - 1))))
            \<and> (w_try g \<le> 0 \<longrightarrow> watcher_run E w g exitCode = (Exhausted, None, w1)))"
  using assms
  by (simp add: watcher_run_def Let_def split_beta access_registry reaped_registry)

text \<open>A clean exit, a removed entry, a restart and an exhausted budget.\<close>

theorem watcher_run_policy_witness:
  "fst (watcher_run example_env (registered_world ''job'' (Some (Running ExitsOnTerm)))
          (job_watcher 3) 0) = CleanExit
   \<and> fst (watcher_run example_env example_world (web_watcher 3) 1) = Removed
   \<and> fst (watcher_run example_env (registered_world ''job'' (Some (Running ExitsOnTerm)))
          (job_watcher 3) 1) = Restart (Returns None)
   \<and> fst (watcher_run example_env (registered_world ''job'' (Some (Running ExitsOnTerm)))
          (job_watcher 0) 1) = Exhausted"
proof -
  have t1: "fst (watcher_run example_env (registered_world ''job'' (Some (Running ExitsOnTerm)))
          (job_watcher 3) 0) = CleanExit"
    using watcher_run_policy [where g = "job_watcher 3" and exitCode = 0 and E = example_env
        and w = "registered_world ''job'' (Some (Running ExitsOnTerm))",
        OF job_policy [symmetric] refl]
    by simp
  have m: "mapCommand example_world (w_service (web_watcher 3)) = None"
    by (simp add: example_world_def)
  have t2: "fst (watcher_run example_env example_world (web_watcher 3) 1) = Removed"
    using watcher_run_policy [where g = "web_watcher 3" and exitCode = 1 and E = example_env
        and w = example_world, OF web_policy [symmetric] refl] m
    by simp
  have s: "w_service (job_watcher n) = ''job''" "w_try (job_watcher n) = n" for n
    by (simp_all add: job_watcher_def)
  have t3: "fst (watcher_run example_env (registered_world ''job'' (Some (Running ExitsOnTerm)))
          (job_watcher 3) 1) = Restart (Returns None)"
    using watcher_run_policy [where g = "job_watcher 3" and exitCode = 1 and E = example_env
        and w = "registered_world ''job'' (Some (Running ExitsOnTerm))",
        OF job_policy [symmetric] refl]
      Start_job_example
    by (simp add: s)
  have t4: "fst (watcher_run example_env (registered_world ''job'' (Some (Running ExitsOnTerm)))
          (job_watcher 0) 1) = Exhausted"
    using watcher_run_policy [where g = "job_watcher 0" and exitCode = 1 and E = example_env
        and w = "registered_world ''job'' (Some (Running ExitsOnTerm))",
        OF job_policy [symmetric] refl]
    by (simp add: s)
  from t1 t2 t3 t4 show ?thesis by blast
qed

subsection \<open>C2: the restart budget\<close>

text \<open>
  Claim C2. For every service, every budget \<open>n\<close> passed to \<open>Start\<close>, every sequence of
  exit codes and whatever other calls the daemon makes in between, the chain of restarts
  that follows ends: its watchers call \<open>Start\<close> at most \<open>n\<close> times (never when
  \<open>n \<le> 0\<close>), the budgets they pass are \<open>n - 1\<close>, \<open>n - 2\<close>, ... in this order, each at
  least 0, so no restart is made by a watcher whose budget has reached zero.
\<close>

theorem restart_budget:
  "length (fst (snd (start_supervised E exits others w s n))) \<le> nat n
   \<and> map fst (fst (snd (start_supervised E exits others w s n))) =
       map (\<lambda>i. n - 1 - int i) [0..<length (fst (snd (start_supervised E exits others w s n)))]
   \<and> (\<forall>b \<in> set (map fst (fst (snd (start_supervised E exits others w s n)))). 0 \<le> b \<and> b < n)"
proof -
  let ?rs = "fst (snd (start_supervised E exits others w s n))"
  have a: "length ?rs \<le> nat n
         \<and> map fst ?rs = map (\<lambda>i. n - 1 - int i) [0..<length ?rs]"
  proof (cases "Start E w s n")
    case (fields r go w')
    show ?thesis
    proof (cases go)
      case None
      with fields show ?thesis by (simp add: start_supervised_def)
    next
      case (Some g)
      with fields have "w_try g = n" using Start_watcher_try by blast
      with fields Some show ?thesis
        using supervise_length [of E exits others 0 w' g] supervise_budgets [of E exits others 0 w' g]
        by (simp add: start_supervised_def)
    qed
  qed
  have "0 \<le> b \<and> b < n" if "b \<in> set (map fst ?rs)" for b
  proof -
    from a have "set (map fst ?rs) = (\<lambda>i. n - 1 - int i) ` {0..<length ?rs}"
      by (metis (no_types) set_map set_upt)
    with that obtain i where "i < length ?rs" and "b = n - 1 - int i"
      by auto
    with a show ?thesis by linarith
  qed
  with a show ?thesis by blast
qed

theorem restart_budget_witness:
  "length (fst (snd (start_supervised example_env (\<lambda>k. 1) (\<lambda>k. []) example_world ''job'' 2))) = 2
   \<and> length (fst (snd (start_supervised example_env (\<lambda>k. 1) (\<lambda>k. []) example_world ''job'' 2))) \<le> nat 2
   \<and> map fst (fst (snd (start_supervised example_env (\<lambda>k. 1) (\<lambda>k. []) example_world ''job'' 2)))
       = [1, 0]"
proof -
  let ?rs = "fst (snd (start_supervised example_env (\<lambda>k. 1) (\<lambda>k. []) example_world ''job'' 2))"
  have t: "length ?rs \<le> nat 2 \<and> map fst ?rs = map (\<lambda>i. 2 - 1 - int i) [0..<length ?rs]"
    using restart_budget [of example_env "\<lambda>k. 1" "\<lambda>k. []" example_world "''job''" 2] by blast
  have l: "length ?rs = 2"
    by (simp only: job_run_example) simp
  have u: "[0..<2] = [0, Suc 0]"
    by (simp add: upt_rec)
  from t l show ?thesis
    by (simp add: u)
qed

subsection \<open>C3: Stop\<close>

text \<open>
  What \<open>Stop\<close> does when the registered command has a process. Called with the mutex
  free, \<open>Stop\<close> returns an error exactly when the registry has no entry for the name.
  When a command with a process is registered, \<open>Stop\<close> returns no error, and afterwards
  the registry has no entry for the name, whichever branch was taken: the child exited
  within the grace period, it was killed after the timeout, or it had exited before.
  Whenever \<open>Stop\<close> returns, the registry has no entry for the name.
\<close>

lemma Stop_clears_registry:
  assumes "\<not> lock w"
  shows "((\<exists>m. fst (Stop w s) = Returns (Some m)) \<longleftrightarrow> mapCommand w s = None)
       \<and> (\<forall>c p. mapCommand w s = Some c \<and> Process c = Some p \<longrightarrow>
              fst (Stop w s) = Returns None
              \<and> mapCommand (snd (Stop w s)) s = None)
       \<and> (\<forall>r. fst (Stop w s) = Returns r \<longrightarrow> mapCommand (snd (Stop w s)) s = None)"
proof -
  have a: "(\<exists>m. fst (Stop w s) = Returns (Some m)) \<longleftrightarrow> mapCommand w s = None"
    using assms by (auto simp: Stop_result split: option.splits)
  have b: "fst (Stop w s) = Returns None \<and> mapCommand (snd (Stop w s)) s = None"
    if "mapCommand w s = Some c \<and> Process c = Some p" for c p
    using assms that by (simp add: Stop_result)
  have c: "mapCommand (snd (Stop w s)) s = None" if "fst (Stop w s) = Returns r" for r
    using assms that by (auto simp: Stop_result split: option.splits)
  from a b c show ?thesis by blast
qed

text \<open>The three branches, and a service that is not registered.\<close>

lemma Stop_clears_registry_examples:
  "grace_wait (procs (registered_world ''web'' (Some (Running ExitsOnTerm))) 7) = Graceful
   \<and> fst (Stop (registered_world ''web'' (Some (Running ExitsOnTerm))) ''web'') = Returns None
   \<and> mapCommand (snd (Stop (registered_world ''web'' (Some (Running ExitsOnTerm))) ''web'')) ''web'' = None
   \<and> grace_wait (procs (registered_world ''web'' (Some (Running NeverExits))) 7) = Forced
   \<and> fst (Stop (registered_world ''web'' (Some (Running NeverExits))) ''web'') = Returns None
   \<and> mapCommand (snd (Stop (registered_world ''web'' (Some (Running NeverExits))) ''web'')) ''web'' = None
   \<and> grace_wait (procs (registered_world ''web'' (Some Exited)) 7) = AlreadyExited
   \<and> fst (Stop (registered_world ''web'' (Some Exited)) ''web'') = Returns None
   \<and> mapCommand (snd (Stop (registered_world ''web'' (Some Exited)) ''web'')) ''web'' = None
   \<and> (\<exists>m. fst (Stop example_world ''web'') = Returns (Some m))"
proof -
  have l: "\<not> lock (registered_world ''web'' st)" for st
    by (simp add: registered_world_def example_world_def)
  have l0: "\<not> lock example_world"
    by (simp add: example_world_def)
  have m: "mapCommand (registered_world ''web'' st) ''web'' = Some (web_cmd (Some 7))
           \<and> Process (web_cmd (Some 7)) = Some 7" for st
    by (simp add: registered_world_def web_cmd_def)
  have m0: "mapCommand example_world ''web'' = None"
    by (simp add: example_world_def)
  have g: "grace_wait (procs (registered_world ''web'' st) 7) = grace_wait st" for st
    by (simp add: registered_world_def)
  show ?thesis
    using Stop_clears_registry [OF l, of "Some (Running ExitsOnTerm)" "''web''"]
      Stop_clears_registry [OF l, of "Some (Running NeverExits)" "''web''"]
      Stop_clears_registry [OF l, of "Some Exited" "''web''"]
      Stop_clears_registry [OF l0, of "''web''"]
      m m0
    by (simp add: g)
qed

text \<open>The state that a failed launch of the unit \<open>ghost\<close> leaves: the mutex is free
  and the registry holds the command that was never launched.\<close>

lemma ghost_after_failed_start:
  "\<not> lock (snd (snd (Start example_env example_world ''ghost'' 5)))
   \<and> mapCommand (snd (snd (Start example_env example_world ''ghost'' 5))) ''ghost''
       = Some (build_command example_env ghost_unit ''/bin/missing'')"
  by (simp add: Start_def Start_launch_def Let_def find_service_def os_Stat_unfold os_ReadFile_def
        follow_41 parseSystemdService_def terminate_existing_def command_Start_def
        build_command_def access_def Unlock_def value_or_empty_def
        usrPath_def sysPath_def example_world_def example_fs_def
        example_env_def ghost_unit_def)

text \<open>
  Claim C3 fails on the code. When the registry holds a command that was never launched
  (its \<open>Process\<close> is nil, as a failed launch in \<open>Start\<close> leaves it), no process is
  registered for the name, yet \<open>Stop\<close> returns no error: it calls
  \<open>command.Process.Signal\<close> (line 452) without the nil check that \<open>Start\<close> (line 361) and
  \<open>Status\<close> (line 492) make, panics, and the registry entry is still there.
\<close>

theorem Stop_never_launched:
  assumes "\<not> lock w" and "mapCommand w s = Some c" and "Process c = None"
  shows "fst (Stop w s) = Panic \<and> mapCommand (snd (Stop w s)) s = Some c"
  using assms by (simp add: Stop_result)

text \<open>\<open>start ghost\<close> fails to launch; the \<open>stop ghost\<close> that follows panics.\<close>

theorem Stop_never_launched_witness:
  "fst (Stop (snd (snd (Start example_env example_world ''ghost'' 5))) ''ghost'') = Panic
   \<and> mapCommand (snd (Stop (snd (snd (Start example_env example_world ''ghost'' 5))) ''ghost''))
         ''ghost''
       = Some (build_command example_env ghost_unit ''/bin/missing'')"
  using Stop_never_launched [OF conjunct1 [OF ghost_after_failed_start]
      conjunct2 [OF ghost_after_failed_start] build_command_Process]
  by simp

subsection \<open>C4: Status\<close>

text \<open>
  Claim C4. Called with the mutex free, \<open>Status\<close> returns an error exactly when the unit
  file is found in neither service directory. Otherwise it returns \<open>running\<close> exactly when
  the registry has an entry for the name whose process answers the liveness probe, and
  \<open>exited\<close> in every other case. For a service that has no registry entry at first and
  is never started by any of the calls made since, \<open>Status\<close> never returns \<open>running\<close>.
\<close>

theorem Status_reports:
  assumes "\<not> lock w"
  shows "((\<exists>m. fst (Status w s) = Returns (Inl m)) \<longleftrightarrow>
            \<not> os_Stat (fs w) (usrPath @ ''/'' @ s @ ''.service'')
            \<and> \<not> os_Stat (fs w) (sysPath @ ''/'' @ s @ ''.service''))
       \<and> (os_Stat (fs w) (usrPath @ ''/'' @ s @ ''.service'')
            \<or> os_Stat (fs w) (sysPath @ ''/'' @ s @ ''.service'') \<longrightarrow>
          (fst (Status w s) = Returns (Inr ''running'') \<longleftrightarrow>
             (\<exists>c p. mapCommand w s = Some c \<and> Process c = Some p \<and> isProcessRunning w p))
          \<and> (fst (Status w s) \<noteq> Returns (Inr ''running'') \<longrightarrow>
               fst (Status w s) = Returns (Inr ''exited'')))
       \<and> (\<forall>w0 cs. mapCommand w0 s = None \<and> (\<forall>c \<in> set cs. \<not> starts s c) \<longrightarrow>
              fst (Status (perform_all E w0 cs) s) \<noteq> Returns (Inr ''running''))"
proof -
  have a: "(\<exists>m. fst (Status w s) = Returns (Inl m)) \<longleftrightarrow>
            \<not> os_Stat (fs w) (usrPath @ ''/'' @ s @ ''.service'')
            \<and> \<not> os_Stat (fs w) (sysPath @ ''/'' @ s @ ''.service'')"
    using assms find_service_empty [of "fs w" s] by (auto simp: Status_result)
  have b: "(fst (Status w s) = Returns (Inr ''running'') \<longleftrightarrow>
             (\<exists>c p. mapCommand w s = Some c \<and> Process c = Some p \<and> isProcessRunning w p))
          \<and> (fst (Status w s) \<noteq> Returns (Inr ''running'') \<longrightarrow>
               fst (Status w s) = Returns (Inr ''exited''))"
    if "os_Stat (fs w) (usrPath @ ''/'' @ s @ ''.service'')
            \<or> os_Stat (fs w) (sysPath @ ''/'' @ s @ ''.service'')"
  proof -
    from that have "find_service (fs w) s \<noteq> []"
      using find_service_empty [of "fs w" s] by blast
    then show ?thesis using assms by (simp add: Status_result)
  qed
  have c: "fst (Status (perform_all E w0 cs) s) \<noteq> Returns (Inr ''running'')"
    if "mapCommand w0 s = None \<and> (\<forall>c \<in> set cs. \<not> starts s c)" for w0 cs
  proof -
    from that have "mapCommand (perform_all E w0 cs) s = None"
      by (simp add: perform_all_registry)
    then show ?thesis by (rule Status_not_running)
  qed
  from a b c show ?thesis by blast
qed

text \<open>A service never started, a running one, an exited one, and an unknown name.\<close>

theorem Status_reports_witness:
  "fst (Status example_world ''web'') = Returns (Inr ''exited'')
   \<and> fst (Status (registered_world ''web'' (Some (Running ExitsOnTerm))) ''web'')
       = Returns (Inr ''running'')
   \<and> fst (Status (registered_world ''web'' (Some Exited)) ''web'') = Returns (Inr ''exited'')
   \<and> (\<exists>m. fst (Status example_world ''nothing'') = Returns (Inl m))
   \<and> fst (Status (perform_all example_env example_world
                    [CallStart ''job'' 5, CallStop ''job'', CallEnable ''web'']) ''web'')
       \<noteq> Returns (Inr ''running'')"
proof -
  have l: "\<not> lock (registered_world ''web'' st)" for st
    by (simp add: registered_world_def example_world_def)
  have l0: "\<not> lock example_world"
    by (simp add: example_world_def)
  have f: "os_Stat (fs (registered_world ''web'' st)) ''/etc/systemd/system/web.service''" for st
    by (simp add: os_Stat_unfold registered_world_def example_world_def example_fs_def)
  have f0: "os_Stat (fs example_world) ''/etc/systemd/system/web.service''"
    by (simp add: os_Stat_unfold example_world_def example_fs_def)
  have u: "\<not> os_Stat (fs example_world) ''/etc/systemd/system/nothing.service''"
          "\<not> os_Stat (fs example_world) ''/usr/lib/systemd/system/nothing.service''"
    by (simp_all add: os_Stat_unfold example_world_def example_fs_def)
  have m: "mapCommand (registered_world ''web'' st) ''web'' = Some (web_cmd (Some 7))" for st
    by (simp add: registered_world_def)
  have p: "Process (web_cmd (Some 7)) = Some 7"
    by (simp add: web_cmd_def)
  have r: "isProcessRunning (registered_world ''web'' (Some (Running ExitsOnTerm))) 7"
          "\<not> isProcessRunning (registered_world ''web'' (Some Exited)) 7"
    by (simp_all add: isProcessRunning_def registered_world_def)
  have m0: "mapCommand example_world ''web'' = None"
    by (simp add: example_world_def)
  have t1: "fst (Status example_world ''web'') = Returns (Inr ''exited'')"
    using Status_reports [OF l0, of "''web''" example_env] f0 m0
    by (simp add: usrPath_def)
  have t2: "fst (Status (registered_world ''web'' (Some (Running ExitsOnTerm))) ''web'')
       = Returns (Inr ''running'')"
    using Status_reports [OF l, of "Some (Running ExitsOnTerm)" "''web''" example_env] f m p r
    by (simp add: usrPath_def)
  have t3: "fst (Status (registered_world ''web'' (Some Exited)) ''web'') = Returns (Inr ''exited'')"
    using Status_reports [OF l, of "Some Exited" "''web''" example_env] f m p r
    by (simp add: usrPath_def)
  have t4: "\<exists>m. fst (Status example_world ''nothing'') = Returns (Inl m)"
    using Status_reports [OF l0, of "''nothing''" example_env] u
    by (simp add: usrPath_def sysPath_def)
  have t5: "fst (Status (perform_all example_env example_world
                    [CallStart ''job'' 5, CallStop ''job'', CallEnable ''web'']) ''web'')
       \<noteq> Returns (Inr ''running'')"
    using Status_reports [OF l0, of "''web''" example_env, THEN conjunct2, THEN conjunct2,
        rule_format, of example_world "[CallStart ''job'' 5, CallStop ''job'', CallEnable ''web'']"]
      m0
    by simp
  from t1 t2 t3 t4 t5 show ?thesis by blast
qed

subsection \<open>C5: unknown operations\<close>

text \<open>
  Claim C5, as amended. A message with a colon whose operation field is none of
  \<open>enable\<close>, \<open>disable\<close>, \<open>start\<close>, \<open>stop\<close>, \<open>status\<close>, \<open>reboot\<close>, and is not
  \<open>restart\<close> either, is not ignored silently: the handler performs no operation, leaves
  the state as it is, and writes the reply \<open>success\<close> to the client. Nothing is said
  here of \<open>restart\<close>, which the client of the same program sends.
\<close>

theorem unknown_operation_reply:
  assumes "CHR '':'' \<notin> set op"
    and "op \<notin> {''enable'', ''disable'', ''start'', ''stop'', ''status'', ''reboot'',
                 ''restart''}"
  shows "handleConnection E w (Inr (op @ '':'' @ rest)) = (Reply ''success'', None, w)"
proof -
  have "handleConnection E w (Inr (op @ CHR '':'' # rest)) =
          dispatch E w op (ReplaceAll (hd (Split rest CHR '':'')) ''.service'' [])"
    using assms(1) by (rule handleConnection_fields)
  moreover have "dispatch E w op n = (Reply ''success'', None, w)" for n
    using assms(2) by (simp add: dispatch_def respond_nil)
  ultimately show ?thesis by simp
qed

text \<open>An operation that no client of this program sends.\<close>

theorem unknown_operation_reply_witness:
  "handleConnection example_env example_world (Inr ''reload:web'')
     = (Reply ''success'', None, example_world)"
  using unknown_operation_reply [of "''reload''" example_env example_world "''web''"]
  by simp

text \<open>C5 as stated fails: an unknown operation gets a reply.\<close>

theorem unknown_operation_counterexample:
  "fst (handleConnection example_env example_world (Inr ''reload:job.service'')) \<noteq> NoReply"
  by (simp add: handleConnection_def dispatch_def respond_def)

text \<open>A missed case of the \<open>switch\<close>: the client sends \<open>restart\<close> (lines 102--108), the
  handler has no case for it, so a running service is neither stopped nor started again
  and the client is still told \<open>success\<close>.\<close>

lemma restart_not_handled:
  "handleConnection example_env (registered_world ''web'' (Some (Running ExitsOnTerm)))
       (Inr ''restart:web'')
     = (Reply ''success'', None, registered_world ''web'' (Some (Running ExitsOnTerm)))"
  by (simp add: handleConnection_def dispatch_def respond_def)

subsection \<open>C6: the fields of a message\<close>

text \<open>
  Claim C6, as amended. A message without colon is dropped with no reply. Otherwise the
  message is split at every colon: the operation is the text before the first colon and
  the service name is the text between the first and the second colon (or the end of the
  message); what follows a second colon is ignored. Of a name in which \<open>.service\<close>
  occurs only as the trailing suffix, the suffix is stripped; a name without \<open>.service\<close>
  is dispatched as it is.
\<close>

theorem handleConnection_dispatches:
  "(CHR '':'' \<notin> set msg \<longrightarrow> handleConnection E w (Inr msg) = (NoReply, None, w))
   \<and> (CHR '':'' \<notin> set op \<and> CHR '':'' \<notin> set field \<and> (rest = [] \<or> hd rest = CHR '':'')
        \<and> \<not> sublist ''.service'' base \<and> (field = base \<or> field = base @ ''.service'')
      \<longrightarrow> handleConnection E w (Inr (op @ '':'' @ field @ rest)) = dispatch E w op base)"
proof (intro conjI impI)
  assume "CHR '':'' \<notin> set msg"
  then show "handleConnection E w (Inr msg) = (NoReply, None, w)"
    by (rule handleConnection_no_colon)
next
  assume h: "CHR '':'' \<notin> set op \<and> CHR '':'' \<notin> set field \<and> (rest = [] \<or> hd rest = CHR '':'')
        \<and> \<not> sublist ''.service'' base \<and> (field = base \<or> field = base @ ''.service'')"
  then have "handleConnection E w (Inr (op @ CHR '':'' # (field @ rest))) =
          dispatch E w op (ReplaceAll (hd (Split (field @ rest) CHR '':'')) ''.service'' [])"
    by (simp add: handleConnection_fields)
  moreover from h have "hd (Split (field @ rest) CHR '':'') = field"
    by (simp add: Split_second_field)
  moreover from h have "ReplaceAll field ''.service'' [] = base"
    using strip_unit_suffix by blast
  ultimately show "handleConnection E w (Inr (op @ '':'' @ field @ rest)) = dispatch E w op base"
    by simp
qed

text \<open>A message without colon, one with the unit suffix, and one with a second colon.\<close>

theorem handleConnection_dispatches_witness:
  "handleConnection example_env example_world (Inr ''garbage'') = (NoReply, None, example_world)
   \<and> handleConnection example_env example_world (Inr ''status:web.service'')
       = dispatch example_env example_world ''status'' ''web''
   \<and> handleConnection example_env example_world (Inr ''stop:job:now'')
       = dispatch example_env example_world ''stop'' ''job''"
proof -
  have a: "\<not> sublist ''.service'' ''web''" by code_simp
  have b: "\<not> sublist ''.service'' ''job''" by code_simp
  show ?thesis
    using handleConnection_dispatches [of "''garbage''" example_env example_world "[]" "[]" "[]" "[]"]
      handleConnection_dispatches [of "[]" example_env example_world "''status''" "''web.service''" "[]" "''web''"]
      handleConnection_dispatches [of "[]" example_env example_world "''stop''" "''job''" "'':now''" "''job''"]
      a b
    by simp
qed

text \<open>C6 as stated fails: of \<open>status:web:x\<close> the service name is \<open>web\<close>, not the rest
  \<open>web:x\<close> after the first colon (which names no unit).\<close>

theorem second_colon_counterexample:
  "fst (handleConnection example_env example_world (Inr ''status:web:x'')) = Reply ''exited''
   \<and> fst (dispatch example_env example_world ''status'' ''web:x'') = Reply ''no service found''"
  by (simp add: handleConnection_def dispatch_def Status_def find_service_def os_Stat_unfold
        usrPath_def sysPath_def example_world_def example_fs_def Unlock_def access_def
        respond_def ReplaceAll_skip ReplaceAll_Nil)

text \<open>A name with \<open>.service\<close> inside: the handler (\<open>strings.ReplaceAll\<close>, line 270)
  removes every occurrence, the boot walk (\<open>strings.TrimSuffix\<close>, line 204) only the
  trailing one.\<close>

lemma unit_suffix_twice:
  "ReplaceAll ''my.service.web.service'' ''.service'' [] = ''my.web''
   \<and> TrimSuffix ''my.service.web.service'' ''.service'' = ''my.service.web''"
  by (simp add: ReplaceAll_skip ReplaceAll_hit ReplaceAll_Nil TrimSuffix_def HasSuffix_def
        suffix_to_prefix)

subsection \<open>C7: the command line\<close>




text \<open>The key that line 384 passes to \<open>os.Getenv\<close> is the whole token, the \<open>$\<close>
  included: with \<open>PORT\<close> set, the token \<open>$PORT\<close> is dropped.\<close>

lemma expand_args_sigil_key:
  "Getenv example_env ''PORT'' = ''8080''
   \<and> Args (build_command example_env web_unit ''/bin/web --port $PORT'') = [''/bin/web'', ''--port'']"
  by (simp add: build_command_def HasPrefix_def example_env_def Let_def)

subsection \<open>C8: Enable and Disable\<close>

text \<open>
  Claim C8, as amended. Called with the mutex free, \<open>Enable\<close> returns an error exactly
  when the unit file is found in neither service directory or when something exists
  already at the path of the enablement link (the service was enabled before); otherwise
  it returns no error and has created the link to the resolved unit file. \<open>Disable\<close>
  returns an error exactly when nothing exists at the path of the link; otherwise it
  returns no error. After \<open>Disable\<close>, and so after \<open>Enable\<close> followed by \<open>Disable\<close>,
  the link is absent.
\<close>

theorem Enable_Disable_errors:
  assumes "\<not> lock w"
  shows "((\<exists>m. fst (Enable w s) = Returns (Some m)) \<longleftrightarrow>
            (\<not> os_Stat (fs w) (usrPath @ ''/'' @ s @ ''.service'')
               \<and> \<not> os_Stat (fs w) (sysPath @ ''/'' @ s @ ''.service''))
            \<or> fs w (enablePath @ ''/'' @ s @ ''.service'') \<noteq> None)
       \<and> ((\<forall>m. fst (Enable w s) \<noteq> Returns (Some m)) \<longrightarrow>
            fst (Enable w s) = Returns None
            \<and> fs (snd (Enable w s)) (enablePath @ ''/'' @ s @ ''.service'')
                = Some (Symlink (find_service (fs w) s)))
       \<and> ((\<exists>m. fst (Disable w s) = Returns (Some m)) \<longleftrightarrow>
            fs w (enablePath @ ''/'' @ s @ ''.service'') = None)
       \<and> ((\<forall>m. fst (Disable w s) \<noteq> Returns (Some m)) \<longrightarrow> fst (Disable w s) = Returns None)
       \<and> fs (snd (Disable w s)) (enablePath @ ''/'' @ s @ ''.service'') = None
       \<and> fs (snd (Disable (snd (Enable w s)) s)) (enablePath @ ''/'' @ s @ ''.service'') = None"
proof -
  have e1: "(\<exists>m. fst (Enable w s) = Returns (Some m)) \<longleftrightarrow>
            (\<not> os_Stat (fs w) (usrPath @ ''/'' @ s @ ''.service'')
               \<and> \<not> os_Stat (fs w) (sysPath @ ''/'' @ s @ ''.service''))
            \<or> fs w (enablePath @ ''/'' @ s @ ''.service'') \<noteq> None"
    using assms find_service_empty [of "fs w" s]
    by (auto simp: Enable_result split: option.splits)
  have e2: "(\<forall>m. fst (Enable w s) \<noteq> Returns (Some m)) \<longrightarrow>
            fst (Enable w s) = Returns None
            \<and> fs (snd (Enable w s)) (enablePath @ ''/'' @ s @ ''.service'')
                = Some (Symlink (find_service (fs w) s))"
    using assms by (auto simp: Enable_result split: option.splits)
  have d1: "(\<exists>m. fst (Disable w' s) = Returns (Some m)) \<longleftrightarrow>
            fs w' (enablePath @ ''/'' @ s @ ''.service'') = None" if "\<not> lock w'" for w'
    using that by (auto simp: Disable_result split: option.splits)
  have d2: "(\<forall>m. fst (Disable w s) \<noteq> Returns (Some m)) \<longrightarrow> fst (Disable w s) = Returns None"
    using assms by (auto simp: Disable_result split: option.splits)
  have d3: "fs (snd (Disable w' s)) (enablePath @ ''/'' @ s @ ''.service'') = None"
    if "\<not> lock w'" for w'
    using that by (auto simp: Disable_result split: option.splits)
  from e1 e2 d1 [OF assms] d2 d3 [OF assms] d3 [OF Enable_lock [OF assms]]
  show ?thesis by blast
qed

text \<open>The unit \<open>web\<close> is enabled and disabled; \<open>nothing\<close> has no unit file.\<close>

theorem Enable_Disable_errors_witness:
  "fst (Enable example_world ''web'') = Returns None
   \<and> fs (snd (Enable example_world ''web'')) ''/etc/systemd/system/multi-user.target.wants/web.service''
       = Some (Symlink ''/etc/systemd/system/web.service'')
   \<and> fs (snd (Disable (snd (Enable example_world ''web'')) ''web''))
         ''/etc/systemd/system/multi-user.target.wants/web.service'' = None
   \<and> (\<exists>m. fst (Disable example_world ''web'') = Returns (Some m))
   \<and> (\<exists>m. fst (Enable example_world ''nothing'') = Returns (Some m))"
proof -
  have l: "\<not> lock example_world" by (simp add: example_world_def)
  have f: "find_service (fs example_world) ''web'' = ''/etc/systemd/system/web.service''"
    by (simp add: find_service_def os_Stat_unfold usrPath_def example_world_def example_fs_def)
  have n: "fs example_world ''/etc/systemd/system/multi-user.target.wants/web.service'' = None"
    by (simp add: example_world_def example_fs_def)
  have n2: "fs example_world ''/etc/systemd/system/multi-user.target.wants/nothing.service'' = None"
    by (simp add: example_world_def example_fs_def)
  have u: "\<not> os_Stat (fs example_world) ''/etc/systemd/system/nothing.service''"
          "\<not> os_Stat (fs example_world) ''/usr/lib/systemd/system/nothing.service''"
          "os_Stat (fs example_world) ''/etc/systemd/system/web.service''"
    by (simp_all add: os_Stat_unfold example_world_def example_fs_def)
  show ?thesis
    using Enable_Disable_errors [OF l, of "''web''"] Enable_Disable_errors [OF l, of "''nothing''"]
      f n n2 u
    by (simp add: usrPath_def sysPath_def enablePath_def)
qed

text \<open>C8 as stated fails: the second \<open>Enable\<close> of a service whose unit file resolves
  returns the error of \<open>os.Symlink\<close>.\<close>

theorem enable_twice_counterexample:
  "os_Stat (fs (snd (Enable example_world ''web''))) (usrPath @ ''/'' @ ''web'' @ ''.service'')
   \<and> fst (Enable (snd (Enable example_world ''web'')) ''web'') =
       Returns (Some (''symlink /etc/systemd/system/web.service '' @
                      ''/etc/systemd/system/multi-user.target.wants/web.service: file exists''))"
  by (simp add: Enable_def Let_def os_Symlink_def Unlock_def find_service_def os_Stat_unfold
        usrPath_def sysPath_def enablePath_def example_world_def example_fs_def)

subsection \<open>C9: the mutex and the registry\<close>

text \<open>
  Claim C9 fails on the code. The five operations access the registry only while they
  hold the mutex: none of them adds an unguarded access. The watcher goroutine does not
  take the mutex: with the policy \<open>always\<close> it reads \<open>mapCommand[service]\<close> (line 419)
  while no lock is held, which the ghost field records.
\<close>

theorem watcher_reads_registry_unlocked:
  assumes "\<not> lock w"
    and "value_or_empty (getOptions (w_systemdService g) ''Service'' ''Restart'') = ''always''"
  shows "unguarded (snd (snd (watcher_run E w g exitCode))) = unguarded w @ [w_service g]
       \<and> unguarded (snd (Enable w s)) = unguarded w
       \<and> unguarded (snd (Disable w s)) = unguarded w
       \<and> unguarded (snd (snd (Start E w s n))) = unguarded w
       \<and> unguarded (snd (Stop w s)) = unguarded w
       \<and> unguarded (snd (Status w s)) = unguarded w"
proof -
  have "unguarded (access (reaped w (w_command g)) (w_service g)) = unguarded w @ [w_service g]"
    using assms(1) by (simp add: access_def reaped_fields)
  then have "unguarded (snd (snd (watcher_run E w g exitCode))) = unguarded w @ [w_service g]"
    using assms(2) by (simp add: watcher_run_def Let_def split_beta Start_unguarded)
  then show ?thesis
    by (simp add: Enable_unguarded Disable_unguarded Start_unguarded Stop_unguarded
          Status_unguarded)
qed

text \<open>The watcher of \<open>web\<close>, whose policy is \<open>always\<close>.\<close>

theorem watcher_reads_registry_unlocked_witness:
  "unguarded (snd (snd (watcher_run example_env
       (registered_world ''web'' (Some (Running ExitsOnTerm))) (web_watcher 5) 1))) = [''web'']
   \<and> unguarded (snd (Stop (registered_world ''web'' (Some (Running ExitsOnTerm))) ''web'')) = []"
proof -
  have l: "\<not> lock (registered_world ''web'' (Some (Running ExitsOnTerm)))"
    by (simp add: registered_world_def example_world_def)
  have u: "unguarded (registered_world ''web'' (Some (Running ExitsOnTerm))) = []"
    by (simp add: registered_world_def example_world_def)
  have s: "w_service (web_watcher 5) = ''web''"
    by (simp add: web_watcher_def)
  show ?thesis
    using watcher_reads_registry_unlocked [where g = "web_watcher 5" and E = example_env
        and exitCode = 1 and s = "''web''" and n = 5, OF l web_policy]
    by (simp add: u s)
qed

subsection \<open>C10: Start is not atomic\<close>

text \<open>
  What \<open>Start\<close> leaves behind when the wait for the registered process returns.
  \<open>Start\<close> is called with the mutex free for a service whose unit file is found, read
  and parsed. First: when a running process is registered for the service and it exits
  once it is sent \<open>SIGTERM\<close>, and the unit has no \<open>ExecStart\<close> or an empty one, then
  \<open>Start\<close> returns an error, the process has exited, and the registry still maps the name
  to the command of that process. Second: when the wait for a registered process
  returns, \<open>ExecStart\<close> is usable and launching the new command fails, then \<open>Start\<close>
  returns that error and the registry maps the name to the new command, which has no
  process.
\<close>

lemma Start_not_atomic:
  assumes "\<not> lock w" and "loaded_unit E w s = Some opts"
  shows "(mapCommand w s = Some c \<and> Process c = Some p \<and> procs w p = Some (Running d)
            \<and> d \<noteq> NeverExits
            \<and> (\<forall>val. getOptions opts ''Service'' ''ExecStart'' = Inr val \<longrightarrow> val = []) \<longrightarrow>
          (\<exists>m. fst (Start E w s n) = Returns (Some m))
          \<and> mapCommand (snd (snd (Start E w s n))) s = Some c
          \<and> procs (snd (snd (Start E w s n))) p = Some Exited
          \<and> \<not> isProcessRunning (snd (snd (Start E w s n))) p)
       \<and> ((\<forall>c p. mapCommand w s = Some c \<and> Process c = Some p \<longrightarrow>
                 procs w p \<noteq> Some (Running NeverExits))
            \<and> getOptions opts ''Service'' ''ExecStart'' = Inr val \<and> val \<noteq> []
            \<and> Exec E (build_command E opts val) = Inl err \<longrightarrow>
          fst (Start E w s n) = Returns (Some err)
          \<and> mapCommand (snd (snd (Start E w s n))) s = Some (build_command E opts val)
          \<and> Process (build_command E opts val) = None)"
proof (intro conjI impI)
  assume h: "mapCommand w s = Some c \<and> Process c = Some p \<and> procs w p = Some (Running d)
            \<and> d \<noteq> NeverExits
            \<and> (\<forall>val. getOptions opts ''Service'' ''ExecStart'' = Inr val \<longrightarrow> val = [])"
  then have tw: "term_wait (procs w p) = Some (Some Exited)"
    by (cases d) simp_all
  with h have te: "terminate_existing (w\<lparr>lock := True\<rparr>) (Some c) =
           Some (w\<lparr>lock := True, procs := (procs w)(p \<mapsto> Exited)\<rparr>)"
    by (simp add: terminate_existing_def)
  have r: "Start E w s n =
     (case getOptions opts ''Service'' ''ExecStart'' of
             Inl err \<Rightarrow> (Returns (Some err), None, w\<lparr>lock := False, procs := (procs w)(p \<mapsto> Exited)\<rparr>)
           | Inr val \<Rightarrow> (Returns (Some ''ExecStart not found''), None,
                          w\<lparr>lock := False, procs := (procs w)(p \<mapsto> Exited)\<rparr>))"
    using h by (simp add: Start_loaded [OF assms] te Unlock_def split: sum.splits)
  show "\<exists>m. fst (Start E w s n) = Returns (Some m)"
    by (simp add: r split: sum.splits)
  show "mapCommand (snd (snd (Start E w s n))) s = Some c"
    using h by (simp add: r split: sum.splits)
  show "procs (snd (snd (Start E w s n))) p = Some Exited"
    by (simp add: r split: sum.splits)
  show "\<not> isProcessRunning (snd (snd (Start E w s n))) p"
    by (simp add: r isProcessRunning_def split: sum.splits)
next
  assume h: "(\<forall>c p. mapCommand w s = Some c \<and> Process c = Some p \<longrightarrow>
                 procs w p \<noteq> Some (Running NeverExits))
            \<and> getOptions opts ''Service'' ''ExecStart'' = Inr val \<and> val \<noteq> []
            \<and> Exec E (build_command E opts val) = Inl err"
  have "\<exists>w2. terminate_existing (w\<lparr>lock := True\<rparr>) (mapCommand w s) = Some w2"
  proof (cases "mapCommand w s")
    case None
    then show ?thesis by (simp add: terminate_existing_def)
  next
    case (Some c)
    show ?thesis
    proof (cases "Process c")
      case None
      with Some show ?thesis by (simp add: terminate_existing_def)
    next
      case (Some p)
      with \<open>mapCommand w s = Some c\<close> h have "procs w p \<noteq> Some (Running NeverExits)" by blast
      then have "term_wait (procs w p) \<noteq> None"
        by (cases "procs w p" rule: term_wait.cases) simp_all
      with Some \<open>mapCommand w s = Some c\<close> show ?thesis
        by (auto simp: terminate_existing_def)
    qed
  qed
  then obtain w2 where te: "terminate_existing (w\<lparr>lock := True\<rparr>) (mapCommand w s) = Some w2"
    by blast
  then have f: "lock w2" "mapCommand w2 = mapCommand w"
    using terminate_existing_fields [OF te] terminate_existing_registry [OF te] by simp_all
  have r: "Start E w s n =
             (Returns (Some err), None,
              w2\<lparr>mapCommand := (mapCommand w2)(s \<mapsto> build_command E opts val), lock := False\<rparr>)"
    using h by (simp add: Start_loaded [OF assms] te Start_launch_failed [OF _ f(1)])
  show "fst (Start E w s n) = Returns (Some err)"
    by (simp add: r)
  show "mapCommand (snd (snd (Start E w s n))) s = Some (build_command E opts val)"
    by (simp add: r)
  show "Process (build_command E opts val) = None"
    by (rule build_command_Process)
qed

text \<open>The unit \<open>broken\<close> with a running process, and the unit \<open>ghost\<close>.\<close>

lemma Start_not_atomic_examples:
  "(\<exists>m. fst (Start example_env (registered_world ''broken'' (Some (Running ExitsOnTerm)))
               ''broken'' 5) = Returns (Some m))
   \<and> mapCommand (snd (snd (Start example_env
          (registered_world ''broken'' (Some (Running ExitsOnTerm))) ''broken'' 5))) ''broken''
       = Some (web_cmd (Some 7))
   \<and> procs (snd (snd (Start example_env
          (registered_world ''broken'' (Some (Running ExitsOnTerm))) ''broken'' 5))) 7
       = Some Exited
   \<and> fst (Start example_env example_world ''ghost'' 5)
       = Returns (Some ''exec: no such file or directory'')
   \<and> mapCommand (snd (snd (Start example_env example_world ''ghost'' 5))) ''ghost''
       = Some (build_command example_env ghost_unit ''/bin/missing'')
   \<and> Process (build_command example_env ghost_unit ''/bin/missing'') = None"
proof -
  have l: "\<not> lock (registered_world ''broken'' st)" for st
    by (simp add: registered_world_def example_world_def)
  have l0: "\<not> lock example_world"
    by (simp add: example_world_def)
  have h1: "mapCommand (registered_world ''broken'' (Some (Running ExitsOnTerm))) ''broken''
              = Some (web_cmd (Some 7))
            \<and> Process (web_cmd (Some 7)) = Some 7
            \<and> procs (registered_world ''broken'' (Some (Running ExitsOnTerm))) 7
              = Some (Running ExitsOnTerm)
            \<and> ExitsOnTerm \<noteq> NeverExits
            \<and> (\<forall>val. getOptions broken_unit ''Service'' ''ExecStart'' = Inr val \<longrightarrow> val = [])"
    by (simp add: registered_world_def web_cmd_def broken_unit_def)
  have h2: "(\<forall>c p. mapCommand example_world ''ghost'' = Some c \<and> Process c = Some p \<longrightarrow>
                 procs example_world p \<noteq> Some (Running NeverExits))
            \<and> getOptions ghost_unit ''Service'' ''ExecStart'' = Inr ''/bin/missing''
            \<and> ''/bin/missing'' \<noteq> []
            \<and> Exec example_env (build_command example_env ghost_unit ''/bin/missing'')
                = Inl ''exec: no such file or directory''"
    by (simp add: example_world_def ghost_unit_def example_env_def build_command_def Let_def)
  from Start_not_atomic [OF l loaded_broken, THEN conjunct1, rule_format, OF h1]
    Start_not_atomic [OF l0 loaded_ghost, THEN conjunct2, rule_format, OF h2]
  show ?thesis by blast
qed

text \<open>
  Claim C10 fails on the code. For a service with a registered running process that
  ignores \<open>SIGTERM\<close> and never exits, \<open>Start\<close> does not terminate the process and
  returns no error: \<open>process.Wait()\<close> (line 364) has no timeout, where \<open>Stop\<close> escalates
  to \<open>SIGKILL\<close> after five seconds (lines 457--471). \<open>Start\<close> never returns, the process
  keeps running, and the mutex stays held, whatever the unit file says of \<open>ExecStart\<close>.
\<close>

theorem Start_blocks:
  assumes "\<not> lock w" and "loaded_unit E w s = Some opts"
    and "mapCommand w s = Some c" and "Process c = Some p"
    and "procs w p = Some (Running NeverExits)"
  shows "fst (Start E w s n) = Blocked
       \<and> lock (snd (snd (Start E w s n)))
       \<and> isProcessRunning (snd (snd (Start E w s n))) p
       \<and> mapCommand (snd (snd (Start E w s n))) s = Some c"
proof -
  have "terminate_existing (w\<lparr>lock := True\<rparr>) (Some c) = None"
    using assms(4,5) by (simp add: terminate_existing_def)
  then have "Start E w s n = (Blocked, None, w\<lparr>lock := True\<rparr>)"
    using assms(3) by (simp add: Start_loaded [OF assms(1,2)])
  then show ?thesis
    using assms(3,5) by (simp add: isProcessRunning_def)
qed

text \<open>The unit \<open>broken\<close>, which has no \<open>ExecStart\<close>, with such a process registered.\<close>

theorem Start_blocks_witness:
  "fst (Start example_env (registered_world ''broken'' (Some (Running NeverExits))) ''broken'' 5)
     = Blocked
   \<and> lock (snd (snd (Start example_env
        (registered_world ''broken'' (Some (Running NeverExits))) ''broken'' 5)))"
proof -
  have l: "\<not> lock (registered_world ''broken'' (Some (Running NeverExits)))"
    by (simp add: registered_world_def example_world_def)
  have m: "mapCommand (registered_world ''broken'' (Some (Running NeverExits))) ''broken''
             = Some (web_cmd (Some 7))"
    by (simp add: registered_world_def)
  have p: "Process (web_cmd (Some 7)) = Some 7"
    by (simp add: web_cmd_def)
  have r: "procs (registered_world ''broken'' (Some (Running NeverExits))) 7
             = Some (Running NeverExits)"
    by (simp add: registered_world_def)
  from Start_blocks [OF l loaded_broken m p r, of 5] show ?thesis by blast
qed

text \<open>The command without process that a failed launch leaves in the registry makes the
  next \<open>stop\<close> of the service end the daemon.\<close>

lemma failed_start_then_stop:
  "fst (handleConnection example_env example_world (Inr ''start:ghost''))
     = Reply ''exec: no such file or directory''
   \<and> fst (handleConnection example_env
            (snd (snd (handleConnection example_env example_world (Inr ''start:ghost''))))
            (Inr ''stop:ghost'')) = DaemonCrash"
  by (simp add: handleConnection_def dispatch_def respond_def Stop_def
        Start_def Start_launch_def Let_def find_service_def os_Stat_unfold os_ReadFile_def
        follow_41 parseSystemdService_def terminate_existing_def command_Start_def
        build_command_def access_def Unlock_def value_or_empty_def
        ReplaceAll_skip ReplaceAll_Nil
        usrPath_def sysPath_def example_world_def example_fs_def
        example_env_def ghost_unit_def)

end
